theory Spec2Isabelle
  imports Complex_Main "HOL-Library.Multiset"
begin

section \<open>JavaScript values used by the pages\<close>

text \<open>
  A JavaScript \<open>number\<close>. Every finite double is a rational, and \<open>Math.floor\<close>,
  \<open>Math.min\<close>, \<open>Math.max\<close> and the comparisons are exact on doubles, so the finite
  values are modelled as rationals; the three non-finite values are kept apart.
  (\<open>-0\<close> and \<open>0\<close> are identified: the code below never divides.)
\<close>

datatype jsnum = Fin rat | NaN | PosInf | NegInf

text \<open>\<open>x || 0\<close> on a number: \<open>0\<close> and \<open>NaN\<close> are falsy.\<close>

fun or_zero :: "jsnum \<Rightarrow> jsnum" where
  "or_zero (Fin q) = Fin q"
| "or_zero NaN = Fin 0"
| "or_zero PosInf = PosInf"
| "or_zero NegInf = NegInf"

fun Math_floor :: "jsnum \<Rightarrow> jsnum" where
  "Math_floor (Fin q) = Fin (of_int \<lfloor>q\<rfloor>)"
| "Math_floor NaN = NaN"
| "Math_floor PosInf = PosInf"
| "Math_floor NegInf = NegInf"

text \<open>\<open>a <= b\<close> on numbers; any comparison with \<open>NaN\<close> is false.\<close>

fun js_le :: "jsnum \<Rightarrow> jsnum \<Rightarrow> bool" where
  "js_le NaN _ = False"
| "js_le _ NaN = False"
| "js_le NegInf _ = True"
| "js_le _ PosInf = True"
| "js_le (Fin a) (Fin b) = (a \<le> b)"
| "js_le (Fin a) NegInf = False"
| "js_le PosInf (Fin b) = False"
| "js_le PosInf NegInf = False"

text \<open>\<open>a > b\<close> on numbers.\<close>

fun js_gt :: "jsnum \<Rightarrow> jsnum \<Rightarrow> bool" where
  "js_gt NaN _ = False"
| "js_gt _ NaN = False"
| "js_gt a b = (\<not> js_le a b)"

definition Math_min :: "jsnum \<Rightarrow> jsnum \<Rightarrow> jsnum" where
  "Math_min a b = (if a = NaN \<or> b = NaN then NaN else if js_le a b then a else b)"

definition Math_max :: "jsnum \<Rightarrow> jsnum \<Rightarrow> jsnum" where
  "Math_max a b = (if a = NaN \<or> b = NaN then NaN else if js_le a b then b else a)"

text \<open>
  The quantity validation of \<open>saveCounts\<close> (and of \<open>updateCount\<close>):
  \<open>Math.max(0, Math.min(999999, Math.floor(v || 0)))\<close>.
\<close>

definition clampQty :: "jsnum \<Rightarrow> jsnum" where
  "clampQty v = Math_max (Fin 0) (Math_min (Fin 999999) (Math_floor (or_zero v)))"

text \<open>Decimal rendering of a count inside a template string.\<close>

fun show_nat :: "nat \<Rightarrow> string" where
  "show_nat n =
     (if n < 10 then [''0123456789'' ! n]
      else show_nat (n div 10) @ [''0123456789'' ! (n mod 10)])"

declare show_nat.simps [simp del]

text \<open>
  A \<open>string\<close> holds the UTF-8 bytes of a JavaScript string.
  \<open>String.prototype.trim\<close> removes white space and line terminators from both
  ends: U+0009 to U+000D, U+0020, U+00A0, U+1680, U+2000 to U+200A, U+2028, U+2029,
  U+202F, U+205F, U+3000 and U+FEFF, here by their encodings. (No encoding of another
  character begins or ends with one of these.)
\<close>

definition white_space :: "string list" where
  "white_space =
     [[CHR 0x09], [CHR 0x0A], [CHR 0x0B], [CHR 0x0C], [CHR 0x0D], [CHR 0x20],
      [CHR 0xC2, CHR 0xA0],
      [CHR 0xE1, CHR 0x9A, CHR 0x80],
      [CHR 0xE2, CHR 0x80, CHR 0x80], [CHR 0xE2, CHR 0x80, CHR 0x81],
      [CHR 0xE2, CHR 0x80, CHR 0x82], [CHR 0xE2, CHR 0x80, CHR 0x83],
      [CHR 0xE2, CHR 0x80, CHR 0x84], [CHR 0xE2, CHR 0x80, CHR 0x85],
      [CHR 0xE2, CHR 0x80, CHR 0x86], [CHR 0xE2, CHR 0x80, CHR 0x87],
      [CHR 0xE2, CHR 0x80, CHR 0x88], [CHR 0xE2, CHR 0x80, CHR 0x89],
      [CHR 0xE2, CHR 0x80, CHR 0x8A],
      [CHR 0xE2, CHR 0x80, CHR 0xA8], [CHR 0xE2, CHR 0x80, CHR 0xA9],
      [CHR 0xE2, CHR 0x80, CHR 0xAF],
      [CHR 0xE2, CHR 0x81, CHR 0x9F],
      [CHR 0xE3, CHR 0x80, CHR 0x80],
      [CHR 0xEF, CHR 0xBB, CHR 0xBF]]"

text \<open>Removes from the front of \<open>s\<close> every leading occurrence of a word of \<open>ws\<close>.\<close>

function strip :: "string list \<Rightarrow> string \<Rightarrow> string" where
  "strip ws s =
     (case find (\<lambda>w. w \<noteq> [] \<and> take (length w) s = w) ws of
        None \<Rightarrow> s
      | Some w \<Rightarrow> strip ws (drop (length w) s))"
  by pat_completeness auto
termination
proof (relation "measure (\<lambda>(ws, s). length s)")
  show "wf (measure (\<lambda>(ws, s :: string). length s))" by simp
next
  fix ws :: "string list" and s w :: string
  assume "find (\<lambda>w. w \<noteq> [] \<and> take (length w) s = w) ws = Some w"
  then have w: "w \<noteq> []" and t: "take (length w) s = w" by (auto simp: find_Some_iff)
  from t have "length (take (length w) s) = length w" by simp
  then have "length w \<le> length s" by simp
  with w show "((ws, drop (length w) s), (ws, s)) \<in> measure (\<lambda>(ws, s). length s)"
    by (cases w) auto
qed

declare strip.simps [simp del]

definition trim :: "string \<Rightarrow> string" where
  "trim s = rev (strip (map rev white_space) (rev (strip white_space s)))"

text \<open>
  \<open>String.prototype.toLowerCase\<close> is the JavaScript engine's and is an argument of the
  code that calls it. On a string of ASCII characters it is this function.
\<close>

definition lower_char :: "char \<Rightarrow> char" where
  "lower_char c =
     (case map_of (zip ''ABCDEFGHIJKLMNOPQRSTUVWXYZ'' ''abcdefghijklmnopqrstuvwxyz'') c of
        Some l \<Rightarrow> l
      | None \<Rightarrow> c)"

definition ascii_toLowerCase :: "string \<Rightarrow> string" where
  "ascii_toLowerCase s = map lower_char s"

section \<open>The hosted database\<close>

text \<open>
  The tables the pages read and write, each a list of rows in the order the database
  returns them. Columns the code never names (\<open>created_at\<close>, \<open>updated_at\<close>) are
  filled by the database and are left out. \<open>completed_at\<close> and \<open>category_id\<close> are
  nullable.
\<close>

record session_row =
  s_id :: string
  s_name :: string
  s_status :: string
  s_created_by :: "string option"
  s_completed_at :: "string option"

record session_assignment =
  sa_session_id :: string
  sa_user_id :: string

record stock_count_row =
  sc_session_id :: string
  sc_shop_id :: string
  sc_item_id :: string
  sc_boxes :: int
  sc_singles :: int
  sc_counted_by :: string

record user_shop_assignment =
  usa_user_id :: string
  usa_shop_id :: string

record shop =
  sh_id :: string
  sh_name :: string

record category =
  cat_id :: string
  cat_name :: string

record item =
  it_id :: string
  it_name :: string
  it_pack_size :: string
  it_category_id :: "string option"

record shop_item =
  si_shop_id :: string
  si_item_id :: string

record database =
  stock_count_sessions :: "session_row list"
  session_user_assignments :: "session_assignment list"
  stock_counts :: "stock_count_row list"
  user_shop_assignments :: "user_shop_assignment list"
  shops :: "shop list"
  categories :: "category list"
  items :: "item list"
  shop_items :: "shop_item list"

text \<open>
  \<open>.order('name')\<close>: the rows sorted by a text column, rows of one name in the order
  of the table. The order of two names is the database's collation; here it is the order
  of their bytes.
\<close>

fun name_le :: "string \<Rightarrow> string \<Rightarrow> bool" where
  "name_le [] ys = True"
| "name_le (x # xs) [] = False"
| "name_le (x # xs) (y # ys) = ((of_char x :: nat) < of_char y \<or> (x = y \<and> name_le xs ys))"

fun insert_by :: "('a \<Rightarrow> string) \<Rightarrow> 'a \<Rightarrow> 'a list \<Rightarrow> 'a list" where
  "insert_by f x [] = [x]"
| "insert_by f x (y # ys) = (if name_le (f x) (f y) then x # y # ys else y # insert_by f x ys)"

definition order_by :: "('a \<Rightarrow> string) \<Rightarrow> 'a list \<Rightarrow> 'a list" where
  "order_by f rows = foldr (insert_by f) rows []"

text \<open>
  An error object of the database client. Every request can fail for a reason outside
  the program (network, permissions); such a failure is an argument of the model
  (\<open>Some e\<close>), and a failed statement changes nothing.
\<close>

record pg_error =
  err_code :: string
  err_message :: string

definition PGRST116 :: pg_error where
  "PGRST116 = \<lparr>err_code = ''PGRST116'',
     err_message = ''JSON object requested, multiple (or no) rows returned''\<rparr>"

text \<open>\<open>.single()\<close>: exactly one row, or the error \<open>PGRST116\<close>.\<close>

definition single :: "pg_error option \<Rightarrow> 'a list \<Rightarrow> pg_error + 'a" where
  "single fault rows =
     (case fault of
        Some e \<Rightarrow> Inl e
      | None \<Rightarrow> (case rows of [r] \<Rightarrow> Inr r | _ \<Rightarrow> Inl PGRST116))"

text \<open>\<open>error.message || 'Unknown error occurred'\<close>.\<close>

definition message_or_unknown :: "pg_error \<Rightarrow> string" where
  "message_or_unknown e =
     (if err_message e = [] then ''Unknown error occurred'' else err_message e)"

datatype toast = Toast_error string | Toast_success string

section \<open>Count page: \<open>saveCounts\<close>\<close>

record StockCount =
  item_id :: string
  boxes :: jsnum
  singles :: jsnum

text \<open>
  The state of the count page that \<open>saveCounts\<close> reads. \<open>counts\<close> is the
  \<open>Record<string, StockCount>\<close>, as its entries.
\<close>

record count_page =
  user_id :: "string option"
  role :: string
  selectedSession :: string
  selectedShop :: string
  counts :: "(string \<times> StockCount) list"

definition Object_values :: "(string \<times> 'a) list \<Rightarrow> 'a list" where
  "Object_values r = map snd r"

text \<open>A row of the upsert request, as the page builds it.\<close>

record count_to_save =
  cs_session_id :: string
  cs_shop_id :: string
  cs_item_id :: string
  cs_boxes :: jsnum
  cs_singles :: jsnum
  cs_counted_by :: string

definition countsArray :: "count_page \<Rightarrow> StockCount list" where
  "countsArray st =
     filter (\<lambda>c. js_gt (clampQty (boxes c)) (Fin 0) \<or> js_gt (clampQty (singles c)) (Fin 0))
       (Object_values (counts st))"

definition countsToSave :: "count_page \<Rightarrow> string \<Rightarrow> count_to_save list" where
  "countsToSave st uid =
     map (\<lambda>count. \<lparr>cs_session_id = selectedSession st,
                    cs_shop_id = selectedShop st,
                    cs_item_id = item_id count,
                    cs_boxes = clampQty (boxes count),
                    cs_singles = clampQty (singles count),
                    cs_counted_by = uid\<rparr>)
       (countsArray st)"

text \<open>
  The database side of \<open>upsert(rows, {onConflict: 'session_id,shop_id,item_id',
  ignoreDuplicates: false})\<close>: one \<open>INSERT ... ON CONFLICT (session_id, shop_id,
  item_id) DO UPDATE\<close> statement. The integer columns accept a number only when it is
  an integer; a statement that names the same key twice is refused; a row whose key is
  present replaces that row, another row is added.
\<close>

type_synonym count_key = "string \<times> string \<times> string"

definition sc_key :: "stock_count_row \<Rightarrow> count_key" where
  "sc_key r = (sc_session_id r, sc_shop_id r, sc_item_id r)"

definition cs_key :: "count_to_save \<Rightarrow> count_key" where
  "cs_key r = (cs_session_id r, cs_shop_id r, cs_item_id r)"

fun pg_integer :: "jsnum \<Rightarrow> int option" where
  "pg_integer (Fin q) = (if of_int \<lfloor>q\<rfloor> = q then Some \<lfloor>q\<rfloor> else None)"
| "pg_integer _ = None"

definition to_row :: "count_to_save \<Rightarrow> stock_count_row option" where
  "to_row r =
     (case (pg_integer (cs_boxes r), pg_integer (cs_singles r)) of
        (Some b, Some s) \<Rightarrow>
          Some \<lparr>sc_session_id = cs_session_id r, sc_shop_id = cs_shop_id r,
                sc_item_id = cs_item_id r, sc_boxes = b, sc_singles = s,
                sc_counted_by = cs_counted_by r\<rparr>
      | _ \<Rightarrow> None)"

definition upsert_row :: "stock_count_row \<Rightarrow> stock_count_row list \<Rightarrow> stock_count_row list" where
  "upsert_row r tbl =
     (if sc_key r \<in> sc_key ` set tbl
      then map (\<lambda>x. if sc_key x = sc_key r then r else x) tbl
      else tbl @ [r])"

definition lookup_count :: "stock_count_row list \<Rightarrow> count_key \<Rightarrow> stock_count_row option" where
  "lookup_count tbl k = find (\<lambda>x. sc_key x = k) tbl"

definition upsert :: "pg_error option \<Rightarrow> count_to_save list \<Rightarrow> stock_count_row list
    \<Rightarrow> pg_error + stock_count_row list" where
  "upsert fault payload tbl =
     (case fault of
        Some e \<Rightarrow> Inl e
      | None \<Rightarrow>
          if None \<in> set (map to_row payload)
          then Inl \<lparr>err_code = ''22P02'', err_message = ''invalid input syntax for type integer''\<rparr>
          else if \<not> distinct (map cs_key payload)
          then Inl \<lparr>err_code = ''21000'',
                 err_message = ''ON CONFLICT DO UPDATE command cannot affect row a second time''\<rparr>
          else Inr (fold upsert_row (map (the \<circ> to_row) payload) tbl))"

text \<open>
  \<open>saveCounts\<close> sends up to three requests, each of which can fail from outside:
  the read of the session's status, for an employee the read of the shop assignment, and
  the upsert. Other clients can write between them, so each request is a step of its own
  on the database as it is when the request arrives. The upsert names the stock counts
  only; it carries no condition on the session.
\<close>

record save_faults =
  sessionError :: "pg_error option"
  assignmentError :: "pg_error option"
  upsertError :: "pg_error option"

definition save_thrown :: "pg_error \<Rightarrow> toast" where
  "save_thrown e = Toast_error (''Error saving counts: '' @ message_or_unknown e)"

definition msg_not_active :: string where
  "msg_not_active = ''Cannot count for a completed session. Please select an active session.''"

definition msg_no_counts :: string where
  "msg_no_counts = ''No counts to save. Enter at least one count.''"

definition msg_no_access :: string where
  "msg_no_access = ''You do not have access to this shop. Please contact a manager.''"

text \<open>
  The employee's shop check: \<open>None\<close> when the page may go on, the toast otherwise.
  An error other than \<open>PGRST116\<close> is thrown; with \<open>PGRST116\<close> there is no
  \<open>assignment\<close>.
\<close>

definition shop_access :: "save_faults \<Rightarrow> count_page \<Rightarrow> string \<Rightarrow> database \<Rightarrow> toast option" where
  "shop_access f st uid db =
     (if role st = ''employee'' then
        (case single (assignmentError f)
                (filter (\<lambda>a. usa_user_id a = uid \<and> usa_shop_id a = selectedShop st)
                   (user_shop_assignments db)) of
           Inl e \<Rightarrow>
             if err_code e \<noteq> ''PGRST116'' then Some (save_thrown e)
             else Some (Toast_error msg_no_access)
         | Inr assignment \<Rightarrow> None)
      else None)"

text \<open>
  The checks before the first request and the first request, the status read:
  \<open>None\<close> when the function goes on, the toast it ends with otherwise.
\<close>

definition saveCounts_validate :: "save_faults \<Rightarrow> count_page \<Rightarrow> database \<Rightarrow> toast option" where
  "saveCounts_validate f st db =
     (if selectedSession st = [] \<or> selectedShop st = []
      then Some (Toast_error ''Please select a session and shop'')
      else if user_id st = None \<or> user_id st = Some []
      then Some (Toast_error ''You must be logged in to save counts'')
      else
        (case single (sessionError f)
                (filter (\<lambda>s. s_id s = selectedSession st) (stock_count_sessions db)) of
           Inl e \<Rightarrow> Some (save_thrown e)
         | Inr sessionData \<Rightarrow>
             (if s_status sessionData \<noteq> ''active'' then Some (Toast_error msg_not_active)
              else None)))"

text \<open>
  The last step: the counts are filtered and clamped, and the upsert is sent. It is
  reached when \<open>saveCounts_validate\<close> and \<open>shop_access\<close> have both answered
  \<open>None\<close>.
\<close>

definition saveCounts_write :: "save_faults \<Rightarrow> count_page \<Rightarrow> database \<Rightarrow> toast \<times> database" where
  "saveCounts_write f st db =
     (if length (countsArray st) = 0 then (Toast_error msg_no_counts, db)
      else
        (case upsert (upsertError f) (countsToSave st (the (user_id st))) (stock_counts db) of
           Inl e \<Rightarrow> (save_thrown e, db)
         | Inr tbl \<Rightarrow>
             (Toast_success
                (''Successfully saved '' @ show_nat (length (countsArray st)) @ '' item count(s)!''),
              db\<lparr>stock_counts := tbl\<rparr>)))"

text \<open>The whole function, when no other client writes between its requests.\<close>

definition saveCounts :: "save_faults \<Rightarrow> count_page \<Rightarrow> database \<Rightarrow> toast \<times> database" where
  "saveCounts f st db =
     (case saveCounts_validate f st db of
        Some t \<Rightarrow> (t, db)
      | None \<Rightarrow>
          (case shop_access f st (the (user_id st)) db of
             Some t \<Rightarrow> (t, db)
           | None \<Rightarrow> saveCounts_write f st db))"

section \<open>Sessions page: \<open>createSession\<close>, \<open>completeSession\<close>, \<open>deleteSession\<close>\<close>

text \<open>The state of the sessions page that the three functions read.\<close>

record sessions_page =
  sp_user_id :: "string option"
  sessionName :: string
  selectedUserIds :: "string list"
  sessionToDelete :: "string option"

record create_faults =
  cr_sessionError :: "pg_error option"
  cr_assignError :: "pg_error option"

text \<open>
  \<open>createSession\<close>. The insert names \<open>name\<close>, \<open>status\<close> and \<open>created_by\<close>
  only: the database gives the row its \<open>id\<close> (the argument \<open>new_id\<close>) and leaves
  \<open>completed_at\<close> null. A failed insert of the assignments is logged and the session
  stays.
\<close>

definition createSession :: "create_faults \<Rightarrow> string \<Rightarrow> sessions_page \<Rightarrow> database \<Rightarrow> toast \<times> database" where
  "createSession f new_id st db =
     (if trim (sessionName st) = [] then (Toast_error ''Please enter a session name'', db)
      else
        (case cr_sessionError f of
           Some e \<Rightarrow> (Toast_error (''Error creating session: '' @ err_message e), db)
         | None \<Rightarrow>
             (let newSession = \<lparr>s_id = new_id, s_name = sessionName st, s_status = ''active'',
                                 s_created_by = sp_user_id st, s_completed_at = None\<rparr>;
                  db1 = db\<lparr>stock_count_sessions := stock_count_sessions db @ [newSession]\<rparr>;
                  assignments = map (\<lambda>userId. \<lparr>sa_session_id = s_id newSession, sa_user_id = userId\<rparr>)
                                  (selectedUserIds st);
                  db2 = (if length (selectedUserIds st) > 0 \<and> cr_assignError f = None
                         then db1\<lparr>session_user_assignments :=
                                    session_user_assignments db1 @ assignments\<rparr>
                         else db1)
              in (Toast_success ''Session created successfully!'', db2))))"

record complete_faults =
  checkError :: "pg_error option"
  updateError :: "pg_error option"

definition msg_already_completed :: string where
  "msg_already_completed = ''Session is already completed or archived.''"

definition msg_completed :: string where
  "msg_completed = ''Session completed successfully!''"

text \<open>
  \<open>completeSession\<close> makes two requests, and other clients can write between them,
  so each request is a step of its own. The first reads the status; \<open>None\<close> means
  that the function goes on to the second.
\<close>

definition completeSession_check :: "complete_faults \<Rightarrow> string \<Rightarrow> database \<Rightarrow> toast option" where
  "completeSession_check f sessionId db =
     (case single (checkError f) (filter (\<lambda>s. s_id s = sessionId) (stock_count_sessions db)) of
        Inl e \<Rightarrow> Some (Toast_error (''Error: '' @ message_or_unknown e))
      | Inr sessionData \<Rightarrow>
          (if s_status sessionData \<noteq> ''active'' then Some (Toast_error msg_already_completed)
           else None))"

text \<open>
  The second is \<open>update({status: 'completed', completed_at: now}).eq('id',
  sessionId).eq('status', 'active')\<close>. The request returns \<open>error\<close> only: an update
  that matches no row is not an error, and the code does not ask for the rows.
\<close>

definition completeSession_update :: "complete_faults \<Rightarrow> string \<Rightarrow> string \<Rightarrow> database \<Rightarrow> toast \<times> database" where
  "completeSession_update f now sessionId db =
     (case updateError f of
        Some e \<Rightarrow> (Toast_error (''Error completing session: '' @ message_or_unknown e), db)
      | None \<Rightarrow>
          (Toast_success msg_completed,
           db\<lparr>stock_count_sessions :=
                map (\<lambda>s. if s_id s = sessionId \<and> s_status s = ''active''
                         then s\<lparr>s_status := ''completed'', s_completed_at := Some now\<rparr>
                         else s)
                  (stock_count_sessions db)\<rparr>))"

text \<open>The whole function, when no other client writes between its two requests.\<close>

definition completeSession :: "complete_faults \<Rightarrow> string \<Rightarrow> string \<Rightarrow> database \<Rightarrow> toast \<times> database" where
  "completeSession f now sessionId db =
     (case completeSession_check f sessionId db of
        Some t \<Rightarrow> (t, db)
      | None \<Rightarrow> completeSession_update f now sessionId db)"

record delete_faults =
  del_countsError :: "pg_error option"
  del_assignError :: "pg_error option"
  del_error :: "pg_error option"

text \<open>The delete requests \<open>deleteSession\<close> sends, in the order it sends them.\<close>

datatype request =
    Delete_stock_counts string
  | Delete_session_user_assignments string
  | Delete_stock_count_sessions string

record delete_result =
  del_toast :: "toast option"
  del_requests :: "request list"
  del_warnings :: "string list"
  del_db :: database

text \<open>
  \<open>deleteSession\<close>. Each delete is its own request; a failed one changes nothing.
  The first two failures go to \<open>console.warn\<close> and the function goes on; the third is
  the toast. (A foreign key of the database with a cascade, or without one, can make the
  requests depend on each other; that is outside the page and not modelled.)
\<close>

definition deleteSession :: "delete_faults \<Rightarrow> sessions_page \<Rightarrow> database \<Rightarrow> delete_result" where
  "deleteSession f st db =
     (if sessionToDelete st = None \<or> sessionToDelete st = Some []
      then \<lparr>del_toast = None, del_requests = [], del_warnings = [], del_db = db\<rparr>
      else
        (let sid = the (sessionToDelete st);
             db1 = (if del_countsError f = None
                    then db\<lparr>stock_counts := filter (\<lambda>r. sc_session_id r \<noteq> sid) (stock_counts db)\<rparr>
                    else db);
             w1 = (if del_countsError f = None then [] else [''Error deleting counts:'']);
             db2 = (if del_assignError f = None
                    then db1\<lparr>session_user_assignments :=
                           filter (\<lambda>a. sa_session_id a \<noteq> sid) (session_user_assignments db1)\<rparr>
                    else db1);
             w2 = (if del_assignError f = None then [] else [''Error deleting assignments:'']);
             requests = [Delete_stock_counts sid, Delete_session_user_assignments sid,
                         Delete_stock_count_sessions sid]
         in (case del_error f of
               Some e \<Rightarrow>
                 \<lparr>del_toast = Some (Toast_error (''Error deleting session: '' @ message_or_unknown e)),
                  del_requests = requests, del_warnings = w1 @ w2, del_db = db2\<rparr>
             | None \<Rightarrow>
                 \<lparr>del_toast = Some (Toast_success ''Session deleted successfully!''),
                  del_requests = requests, del_warnings = w1 @ w2,
                  del_db = db2\<lparr>stock_count_sessions :=
                             filter (\<lambda>s. s_id s \<noteq> sid) (stock_count_sessions db2)\<rparr>\<rparr>)))"

text \<open>The invariant of the session table: \<open>completed_at\<close> is set exactly on the
  completed sessions.\<close>

definition ledger_inv :: "database \<Rightarrow> bool" where
  "ledger_inv db =
     list_all (\<lambda>s. (s_completed_at s \<noteq> None) = (s_status s = ''completed''))
       (stock_count_sessions db)"

section \<open>Sessions page: \<open>downloadExcel\<close>\<close>

text \<open>A cell of a sheet: a string or a number.\<close>

datatype cell = Str string | Num int

text \<open>\<open>shopItemsMap\<close>: shop id to the set of its item ids.\<close>

definition shopItemsMap :: "shop_item list \<Rightarrow> (string \<rightharpoonup> string set)" where
  "shopItemsMap shopItems =
     fold (\<lambda>si m.
             (let m1 = (if m (si_shop_id si) = None then m(si_shop_id si \<mapsto> {}) else m)
              in m1(si_shop_id si \<mapsto> insert (si_item_id si) (the (m1 (si_shop_id si))))))
       shopItems Map.empty"

text \<open>\<open>countsMap\<close>: the key is the template string \<open>`${shop_id}-${item_id}`\<close>.\<close>

definition count_map_key :: "string \<Rightarrow> string \<Rightarrow> string" where
  "count_map_key shopId itemId = shopId @ ''-'' @ itemId"

definition countsMap :: "stock_count_row list \<Rightarrow> (string \<rightharpoonup> int \<times> int)" where
  "countsMap fetched =
     fold (\<lambda>count m. m(count_map_key (sc_shop_id count) (sc_item_id count)
                            \<mapsto> (sc_boxes count, sc_singles count)))
       fetched Map.empty"

definition itemsByCategory :: "category list \<Rightarrow> item list \<Rightarrow> (string \<rightharpoonup> category \<times> item list)" where
  "itemsByCategory cats shopItemsFiltered =
     fold (\<lambda>cat m. m(cat_id cat \<mapsto>
                  (cat, filter (\<lambda>item. it_category_id item = Some (cat_id cat)) shopItemsFiltered)))
       cats Map.empty"

text \<open>The second \<open>categories.forEach\<close>, which pushes the rows of the sheet.\<close>

fun sheetData :: "(string \<rightharpoonup> category \<times> item list) \<Rightarrow> (string \<rightharpoonup> int \<times> int) \<Rightarrow> shop
    \<Rightarrow> category list \<Rightarrow> cell list list" where
  "sheetData byCat cm shop [] = []"
| "sheetData byCat cm shop (cat # cats) =
     (case byCat (cat_id cat) of
        None \<Rightarrow> sheetData byCat cm shop cats
      | Some categoryData \<Rightarrow>
          (if length (snd categoryData) = 0 then sheetData byCat cm shop cats
           else [[Str (cat_name cat)],
                 [Str ''Item Name'', Str ''Pack Size'', Str ''Boxes'', Str ''Singles'']]
                @ map (\<lambda>item.
                         (let count = (case cm (count_map_key (sh_id shop) (it_id item)) of
                                         None \<Rightarrow> (0, 0)
                                       | Some c \<Rightarrow> c)
                          in [Str (it_name item), Str (it_pack_size item),
                              Num (fst count), Num (snd count)]))
                    (snd categoryData)
                @ [[]]
                @ sheetData byCat cm shop cats))"

text \<open>The body of \<open>shops.forEach\<close>: the name and the rows of one shop's sheet.\<close>

definition shop_sheet :: "shop_item list \<Rightarrow> category list \<Rightarrow> item list \<Rightarrow> stock_count_row list
    \<Rightarrow> shop \<Rightarrow> string \<times> cell list list" where
  "shop_sheet shopItems cats its fetched shop =
     (let shopItemIds = (case shopItemsMap shopItems (sh_id shop) of None \<Rightarrow> {} | Some ids \<Rightarrow> ids);
          shopItemsFiltered = filter (\<lambda>item. it_id item \<in> shopItemIds) its
      in (sh_name shop,
          sheetData (itemsByCategory cats shopItemsFiltered) (countsMap fetched) shop cats))"

text \<open>
  The five reads of \<open>downloadExcel\<close> can fail, and the spreadsheet library can throw
  (it refuses some sheet names). Shops, categories and items are read with
  \<open>.order('name')\<close>.
\<close>

record excel_faults =
  xl_shopsError :: "pg_error option"
  xl_categoriesError :: "pg_error option"
  xl_shopItemsError :: "pg_error option"
  xl_itemsError :: "pg_error option"
  xl_countsError :: "pg_error option"
  xl_thrown :: "pg_error option"

text \<open>The file written: its name and its sheets in order.\<close>

type_synonym workbook = "string \<times> (string \<times> cell list list) list"

definition downloadExcel :: "excel_faults \<Rightarrow> string \<Rightarrow> string \<Rightarrow> database \<Rightarrow> toast \<times> workbook option" where
  "downloadExcel f sessionId name db =
     (case xl_shopsError f of
        Some e \<Rightarrow> (Toast_error (''Error fetching shops: '' @ err_message e), None)
      | None \<Rightarrow>
     (if length (order_by sh_name (shops db)) = 0 then (Toast_error ''No shops found'', None) else
     (case xl_categoriesError f of
        Some e \<Rightarrow> (Toast_error (''Error fetching categories: '' @ err_message e), None)
      | None \<Rightarrow>
     (case xl_shopItemsError f of
        Some e \<Rightarrow> (Toast_error (''Error fetching shop items: '' @ err_message e), None)
      | None \<Rightarrow>
     (case xl_itemsError f of
        Some e \<Rightarrow> (Toast_error (''Error fetching items: '' @ err_message e), None)
      | None \<Rightarrow>
     (case xl_countsError f of
        Some e \<Rightarrow> (Toast_error (''Error fetching counts: '' @ err_message e), None)
      | None \<Rightarrow>
     (case xl_thrown f of
        Some e \<Rightarrow> (Toast_error (''Error generating Excel file: '' @ message_or_unknown e), None)
      | None \<Rightarrow>
          (Toast_success ''Excel file downloaded successfully!'',
           Some (name @ ''.xlsx'',
                 map (shop_sheet (shop_items db) (order_by cat_name (categories db))
                        (order_by it_name (items db))
                        (filter (\<lambda>c. sc_session_id c = sessionId) (stock_counts db)))
                   (order_by sh_name (shops db)))))))))))"



section \<open>Count page: \<open>fetchItemsForShop\<close>\<close>

record fetch_faults =
  ft_shopItemsError :: "pg_error option"
  ft_itemsError :: "pg_error option"

text \<open>
  The items the count page loads for a shop (\<open>setItems\<close>) and the error it sets, if
  any. The items are read with \<open>.order('name')\<close>; the \<open>in('id', itemIds)\<close>
  filter is added only when the shop has assignments.
\<close>

definition fetchItemsForShop :: "fetch_faults \<Rightarrow> string \<Rightarrow> database \<Rightarrow> string option \<times> item list" where
  "fetchItemsForShop f shopId db =
     (if shopId = [] then (None, [])
      else
        (case ft_shopItemsError f of
           Some e \<Rightarrow>
             (Some (if err_message e = [] then ''Failed to load items for this shop.''
                    else err_message e), [])
         | None \<Rightarrow>
             (let itemIds = map si_item_id (filter (\<lambda>si. si_shop_id si = shopId) (shop_items db))
              in (case ft_itemsError f of
                    Some e \<Rightarrow>
                      (Some (if err_message e = [] then ''Failed to load items for this shop.''
                             else err_message e), [])
                  | None \<Rightarrow>
                      (None,
                       if length itemIds > 0
                       then filter (\<lambda>item. it_id item \<in> set itemIds) (order_by it_name (items db))
                       else order_by it_name (items db))))))"

text \<open>
  What the count page presents. The item cards are rendered only below
  \<open>categories.map\<close>, category by category through \<open>getItemsByCategory\<close>, and only
  when a session and a shop are selected and \<open>items\<close> is not empty. \<open>cats\<close> and
  \<open>its\<close> are the page's \<open>categories\<close> and \<open>items\<close>.
\<close>

definition getItemsByCategory :: "item list \<Rightarrow> string \<Rightarrow> item list" where
  "getItemsByCategory its categoryId = filter (\<lambda>item. it_category_id item = Some categoryId) its"

definition presented_items :: "count_page \<Rightarrow> category list \<Rightarrow> item list \<Rightarrow> item list" where
  "presented_items st cats its =
     (if selectedSession st \<noteq> [] \<and> selectedShop st \<noteq> [] \<and> length its > 0
      then concat (map (\<lambda>category. getItemsByCategory its (cat_id category)) cats)
      else [])"

section \<open>Products page: the import loop of \<open>handleFileImport\<close>\<close>

text \<open>
  A parsed line of the file (\<open>rows\<close>; the splitting of the text into lines and
  cells comes before the loop and is not modelled).
\<close>

record import_row =
  row_name :: string
  row_pack_size :: string
  row_category :: string

text \<open>
  What the database answers to the insert requests of the row at position \<open>i\<close>: an
  error or none, and the ids it gives to new rows; and the engine's
  \<open>toLowerCase\<close>.
\<close>

record import_env =
  catError :: "nat \<Rightarrow> pg_error option"
  itemError :: "nat \<Rightarrow> pg_error option"
  new_category_id :: "nat \<Rightarrow> string"
  new_item_id :: "nat \<Rightarrow> string"
  toLowerCase :: "string \<Rightarrow> string"

text \<open>
  The variables the loop changes: the two counters, the database, and the page's
  \<open>categories\<close> state as \<open>setCategories\<close> leaves it for the next render.
\<close>

record import_state =
  successCount :: nat
  errorCount :: nat
  im_db :: database
  im_categories :: "category list"

text \<open>
  The category of a row: \<open>categoryId\<close> and the category the database created, if
  one was. \<open>cats\<close> is the constant \<open>categories\<close> of the render in which the handler
  was created: \<open>setCategories\<close> does not change it while the loop runs.
\<close>

definition find_or_create_category :: "import_env \<Rightarrow> category list \<Rightarrow> nat \<Rightarrow> import_row
    \<Rightarrow> string \<times> category option" where
  "find_or_create_category env cats i row =
     (if row_category row \<noteq> [] then
        (case find (\<lambda>c. toLowerCase env (cat_name c) = toLowerCase env (row_category row)) cats of
           Some category \<Rightarrow> (cat_id category, None)
         | None \<Rightarrow>
             (case catError env i of
                Some e \<Rightarrow> ([], None)
              | None \<Rightarrow>
                  (let newCategory = \<lparr>cat_id = new_category_id env i, cat_name = row_category row\<rparr>
                   in (cat_id newCategory, Some newCategory))))
      else ([], None))"

text \<open>The object of \<open>from('items').insert\<close>, with the id the database gives it.\<close>

definition imported_item :: "import_env \<Rightarrow> category list \<Rightarrow> nat \<times> import_row \<Rightarrow> item" where
  "imported_item env cats ir =
     (let categoryId = fst (find_or_create_category env cats (fst ir) (snd ir))
      in \<lparr>it_id = new_item_id env (fst ir),
          it_name = trim (row_name (snd ir)),
          it_pack_size = trim (row_pack_size (snd ir)),
          it_category_id = (if categoryId = [] then None else Some categoryId)\<rparr>)"

text \<open>The body of the loop for the row at position \<open>i\<close>.\<close>

definition import_step :: "import_env \<Rightarrow> category list \<Rightarrow> nat \<Rightarrow> import_row \<Rightarrow> import_state
    \<Rightarrow> import_state" where
  "import_step env cats i row st =
     (if trim (row_name row) = [] then st
      else
        (let st1 = (case snd (find_or_create_category env cats i row) of
                      None \<Rightarrow> st
                    | Some newCategory \<Rightarrow>
                        st\<lparr>im_db := (im_db st)\<lparr>categories := categories (im_db st) @ [newCategory]\<rparr>,
                           im_categories := im_categories st @ [newCategory]\<rparr>)
         in (case itemError env i of
               Some e \<Rightarrow> st1\<lparr>errorCount := errorCount st1 + 1\<rparr>
             | None \<Rightarrow>
                 st1\<lparr>im_db := (im_db st1)\<lparr>items := items (im_db st1) @ [imported_item env cats (i, row)]\<rparr>,
                     successCount := successCount st1 + 1\<rparr>)))"

fun import_loop :: "import_env \<Rightarrow> category list \<Rightarrow> nat \<Rightarrow> import_row list \<Rightarrow> import_state
    \<Rightarrow> import_state" where
  "import_loop env cats i [] st = st"
| "import_loop env cats i (row # rows) st =
     import_loop env cats (Suc i) rows (import_step env cats i row st)"

text \<open>The loop from its start, and the toast after it.\<close>

definition import_rows :: "import_env \<Rightarrow> category list \<Rightarrow> import_row list \<Rightarrow> database
    \<Rightarrow> toast \<times> import_state" where
  "import_rows env cats rows db =
     (let st = import_loop env cats 0 rows
                 \<lparr>successCount = 0, errorCount = 0, im_db = db, im_categories = cats\<rparr>
      in (if successCount st > 0
          then Toast_success (''Imported '' @ show_nat (successCount st) @ '' product(s)''
                 @ (if errorCount st > 0 then '', '' @ show_nat (errorCount st) @ '' failed'' else []))
          else Toast_error (''Failed to import products. '' @ show_nat (errorCount st) @ '' error(s)''),
          st))"

subsection \<open>The write step in the words of the specification\<close>

text \<open>
  The specification's clamp (floor, then the inclusive range 0 to 999999) and its
  surviving write set (the entries whose clamped quantities are not both zero), to be
  compared with \<open>clampQty\<close>, \<open>countsArray\<close> and \<open>countsToSave\<close>.
\<close>

definition spec_clamp :: "jsnum \<Rightarrow> int" where
  "spec_clamp v = (case v of Fin q \<Rightarrow> max 0 (min 999999 \<lfloor>q\<rfloor>) | PosInf \<Rightarrow> 999999 | NegInf \<Rightarrow> 0 | NaN \<Rightarrow> 0)"

definition spec_write_set :: "count_page \<Rightarrow> string \<Rightarrow> stock_count_row list" where
  "spec_write_set st uid =
     map (\<lambda>c. \<lparr>sc_session_id = selectedSession st, sc_shop_id = selectedShop st,
                sc_item_id = item_id c, sc_boxes = spec_clamp (boxes c),
                sc_singles = spec_clamp (singles c), sc_counted_by = uid\<rparr>)
       (filter (\<lambda>c. spec_clamp (boxes c) \<noteq> 0 \<or> spec_clamp (singles c) \<noteq> 0)
          (Object_values (counts st)))"

text \<open>
  A \<open>Record<string, StockCount>\<close> has one entry per key, and every writer of
  \<open>counts\<close> (\<open>loadExistingCounts\<close>, \<open>updateCount\<close>, \<open>incrementCount\<close>,
  \<open>decrementCount\<close>) stores under the key \<open>itemId\<close> an entry whose
  \<open>item_id\<close> is \<open>itemId\<close>.
\<close>

definition counts_wf :: "(string \<times> StockCount) list \<Rightarrow> bool" where
  "counts_wf cs = (distinct (map fst cs) \<and> list_all (\<lambda>(k, c). item_id c = k) cs)"

section \<open>Concrete runs\<close>

text \<open>A small database and a count page on it, for the concrete runs below.\<close>

definition no_save_faults :: save_faults where
  "no_save_faults = \<lparr>sessionError = None, assignmentError = None, upsertError = None\<rparr>"

definition demo_db :: database where
  "demo_db = \<lparr>stock_count_sessions =
       [\<lparr>s_id = ''s1'', s_name = ''Spring'', s_status = ''active'', s_created_by = Some ''m1'',
          s_completed_at = None\<rparr>,
        \<lparr>s_id = ''s0'', s_name = ''Winter'', s_status = ''completed'', s_created_by = Some ''m1'',
          s_completed_at = Some ''2024-01-31T10:00:00.000Z''\<rparr>],
     session_user_assignments = [\<lparr>sa_session_id = ''s1'', sa_user_id = ''u1''\<rparr>],
     stock_counts =
       [\<lparr>sc_session_id = ''s1'', sc_shop_id = ''shop1'', sc_item_id = ''B'', sc_boxes = 2,
          sc_singles = 2, sc_counted_by = ''u0''\<rparr>],
     user_shop_assignments = [\<lparr>usa_user_id = ''u1'', usa_shop_id = ''shop1''\<rparr>],
     shops = [\<lparr>sh_id = ''shop1'', sh_name = ''Main Street''\<rparr>,
              \<lparr>sh_id = ''shop2'', sh_name = ''Harbour''\<rparr>],
     categories = [\<lparr>cat_id = ''c1'', cat_name = ''Food''\<rparr>],
     items = [\<lparr>it_id = ''A'', it_name = ''Apples'', it_pack_size = ''12'', it_category_id = Some ''c1''\<rparr>,
              \<lparr>it_id = ''B'', it_name = ''Beans'', it_pack_size = ''6'', it_category_id = Some ''c1''\<rparr>,
              \<lparr>it_id = ''N'', it_name = ''Napkins'', it_pack_size = ''100'', it_category_id = None\<rparr>],
     shop_items = [\<lparr>si_shop_id = ''shop1'', si_item_id = ''A''\<rparr>,
                   \<lparr>si_shop_id = ''shop1'', si_item_id = ''B''\<rparr>,
                   \<lparr>si_shop_id = ''shop1'', si_item_id = ''N''\<rparr>]\<rparr>"

definition demo_page :: "string \<Rightarrow> (string \<times> StockCount) list \<Rightarrow> count_page" where
  "demo_page sid cs = \<lparr>user_id = Some ''u1'', role = ''employee'', selectedSession = sid,
     selectedShop = ''shop1'', counts = cs\<rparr>"

definition demo_row :: "string \<Rightarrow> int \<Rightarrow> int \<Rightarrow> stock_count_row" where
  "demo_row i b s = \<lparr>sc_session_id = ''s1'', sc_shop_id = ''shop1'', sc_item_id = i, sc_boxes = b,
     sc_singles = s, sc_counted_by = ''u1''\<rparr>"

definition entry :: "string \<Rightarrow> jsnum \<Rightarrow> jsnum \<Rightarrow> string \<times> StockCount" where
  "entry i b s = (i, \<lparr>item_id = i, boxes = b, singles = s\<rparr>)"

text \<open>
  The guards of \<open>saveCounts\<close> before the counts are looked at: a session and a shop
  are selected, a user is logged in, the session read succeeds and finds the session
  \<open>active\<close>, and an employee has exactly one assignment row for the shop.
\<close>

definition save_ready :: "save_faults \<Rightarrow> count_page \<Rightarrow> database \<Rightarrow> bool" where
  "save_ready f st db =
     (selectedSession st \<noteq> [] \<and> selectedShop st \<noteq> []
      \<and> user_id st \<noteq> None \<and> user_id st \<noteq> Some []
      \<and> sessionError f = None
      \<and> map s_status (filter (\<lambda>s. s_id s = selectedSession st) (stock_count_sessions db)) = [''active'']
      \<and> (if role st = ''employee''
         then assignmentError f = None
            \<and> length (filter (\<lambda>a. usa_user_id a = the (user_id st) \<and> usa_shop_id a = selectedShop st)
                   (user_shop_assignments db)) = 1
         else True))"

definition no_complete_faults :: complete_faults where
  "no_complete_faults = \<lparr>checkError = None, updateError = None\<rparr>"

definition demo_sessions_page :: sessions_page where
  "demo_sessions_page = \<lparr>sp_user_id = Some ''m1'', sessionName = ''Summer'',
     selectedUserIds = [''u1'', ''u2''], sessionToDelete = Some ''s0''\<rparr>"

definition demo_error :: pg_error where
  "demo_error = \<lparr>err_code = ''57014'', err_message = ''canceling statement due to statement timeout''\<rparr>"

subsection \<open>The export in the words of the specification\<close>

text \<open>
  An item is assigned to a shop when a Shop Item Assignment row pairs them; it has a
  category of the list when its \<open>category_id\<close> is the id of one; its count is the
  persisted Stock Count row of (session, shop, item), or (0, 0).
\<close>

definition spec_assigned :: "shop_item list \<Rightarrow> shop \<Rightarrow> item \<Rightarrow> bool" where
  "spec_assigned shopItems shop item =
     list_ex (\<lambda>si. si_shop_id si = sh_id shop \<and> si_item_id si = it_id item) shopItems"

definition spec_categorised :: "category list \<Rightarrow> item \<Rightarrow> bool" where
  "spec_categorised cats item =
     (case it_category_id item of None \<Rightarrow> False | Some c \<Rightarrow> c \<in> set (map cat_id cats))"


definition no_excel_faults :: excel_faults where
  "no_excel_faults = \<lparr>xl_shopsError = None, xl_categoriesError = None, xl_shopItemsError = None,
     xl_itemsError = None, xl_countsError = None, xl_thrown = None\<rparr>"



definition demo_shop2 :: shop where
  "demo_shop2 = \<lparr>sh_id = ''shop2'', sh_name = ''Harbour''\<rparr>"

text \<open>The count page with the session \<open>s1\<close> and the shop \<open>Harbour\<close> selected.\<close>

definition demo_harbour_page :: count_page where
  "demo_harbour_page = (demo_page ''s1'' [])\<lparr>selectedShop := ''shop2''\<rparr>"

subsection \<open>The import in the words of the specification\<close>

text \<open>
  A row has a name when its Name is not empty after trimming; a row at a position is
  inserted when it has a name and the database accepts its item, and it failed when it
  has a name and the database refuses its item.
\<close>

definition has_name :: "import_row \<Rightarrow> bool" where
  "has_name row = (trim (row_name row) \<noteq> [])"

definition row_inserted :: "import_env \<Rightarrow> nat \<times> import_row \<Rightarrow> bool" where
  "row_inserted env ir = (has_name (snd ir) \<and> itemError env (fst ir) = None)"

definition row_failed :: "import_env \<Rightarrow> nat \<times> import_row \<Rightarrow> bool" where
  "row_failed env ir = (has_name (snd ir) \<and> itemError env (fst ir) \<noteq> None)"

text \<open>
  An import of four lines: two products of the new category \<open>Drinks\<close>, a line without
  a name, and a product of the existing category \<open>Food\<close>, written \<open>FOOD\<close>. The
  database accepts every insert; or, with a unique category name, it refuses the second
  \<open>Drinks\<close>.
\<close>

definition demo_rows :: "import_row list" where
  "demo_rows =
     [\<lparr>row_name = ''Tea'', row_pack_size = ''20 bags'', row_category = ''Drinks''\<rparr>,
      \<lparr>row_name = ''Coffee'', row_pack_size = ''250 g'', row_category = ''Drinks''\<rparr>,
      \<lparr>row_name = '' '', row_pack_size = ''1'', row_category = ''Food''\<rparr>,
      \<lparr>row_name = ''Milk'', row_pack_size = ''1 l'', row_category = ''FOOD''\<rparr>]"

definition demo_env :: import_env where
  "demo_env = \<lparr>catError = (\<lambda>i. None),
     itemError = (\<lambda>i. None),
     new_category_id = (\<lambda>i. ''cat-'' @ show_nat i),
     new_item_id = (\<lambda>i. ''item-'' @ show_nat i),
     toLowerCase = ascii_toLowerCase\<rparr>"

definition demo_env_unique :: import_env where
  "demo_env_unique = demo_env\<lparr>catError :=
     (\<lambda>i. if i = 1
          then Some \<lparr>err_code = ''23505'',
                 err_message = ''duplicate key value violates unique constraint''\<rparr>
          else None)\<rparr>"

section \<open>Count page: the writers of \<open>counts\<close>\<close>

text \<open>\<open>r[k]\<close> and \<open>{...r, [k]: v}\<close> on a \<open>Record\<close>.\<close>

definition record_get :: "(string \<times> 'a) list \<Rightarrow> string \<Rightarrow> 'a option" where
  "record_get r k = map_of r k"

definition record_set :: "string \<Rightarrow> 'a \<Rightarrow> (string \<times> 'a) list \<Rightarrow> (string \<times> 'a) list" where
  "record_set k v r =
     (if k \<in> fst ` set r then map (\<lambda>e. if fst e = k then (k, v) else e) r else r @ [(k, v)])"

datatype count_field = Boxes | Singles

text \<open>\<open>prev[itemId]?.[field] || 0\<close>.\<close>

definition current_value :: "(string \<times> StockCount) list \<Rightarrow> string \<Rightarrow> count_field \<Rightarrow> jsnum" where
  "current_value prev itemId field =
     (case record_get prev itemId of
        None \<Rightarrow> Fin 0
      | Some c \<Rightarrow> or_zero (case field of Boxes \<Rightarrow> boxes c | Singles \<Rightarrow> singles c))"

text \<open>The entry that the three click handlers store under \<open>itemId\<close>.\<close>

definition with_value :: "(string \<times> StockCount) list \<Rightarrow> string \<Rightarrow> count_field \<Rightarrow> jsnum
    \<Rightarrow> (string \<times> StockCount) list" where
  "with_value prev itemId field newValue =
     record_set itemId
       \<lparr>item_id = itemId,
        boxes = (if field = Boxes then newValue else current_value prev itemId Boxes),
        singles = (if field = Singles then newValue else current_value prev itemId Singles)\<rparr>
       prev"

definition updateCount :: "string \<Rightarrow> count_field \<Rightarrow> jsnum \<Rightarrow> (string \<times> StockCount) list
    \<Rightarrow> (string \<times> StockCount) list" where
  "updateCount itemId field v prev = (let numValue = clampQty v in with_value prev itemId field numValue)"

text \<open>
  \<open>current + 1\<close> and \<open>current - 1\<close>: exact on the integers below \<open>2^53\<close>, which are
  the finite values the page ever holds.
\<close>

fun js_add :: "jsnum \<Rightarrow> rat \<Rightarrow> jsnum" where
  "js_add (Fin q) d = Fin (q + d)"
| "js_add x d = x"

definition incrementCount :: "string \<Rightarrow> count_field \<Rightarrow> (string \<times> StockCount) list
    \<Rightarrow> (string \<times> StockCount) list" where
  "incrementCount itemId field prev =
     (let current = current_value prev itemId field; newValue = js_add current 1
      in with_value prev itemId field newValue)"

definition decrementCount :: "string \<Rightarrow> count_field \<Rightarrow> (string \<times> StockCount) list
    \<Rightarrow> (string \<times> StockCount) list" where
  "decrementCount itemId field prev =
     (let current = current_value prev itemId field
      in if js_gt current (Fin 0) then with_value prev itemId field (js_add current (- 1))
         else prev)"

text \<open>
  \<open>loadExistingCounts\<close>: the rows of the session and shop, each stored under its
  \<open>item_id\<close>; a failed read leaves the empty record.
\<close>

definition loadExistingCounts :: "pg_error option \<Rightarrow> string \<Rightarrow> string \<Rightarrow> database
    \<Rightarrow> (string \<times> StockCount) list" where
  "loadExistingCounts fault sessionId shopId db =
     (case fault of
        Some e \<Rightarrow> []
      | None \<Rightarrow>
          fold (\<lambda>count countsMap.
                  record_set (sc_item_id count)
                    \<lparr>item_id = sc_item_id count,
                     boxes = or_zero (Fin (of_int (sc_boxes count))),
                     singles = or_zero (Fin (of_int (sc_singles count)))\<rparr>
                    countsMap)
            (filter (\<lambda>c. sc_session_id c = sessionId \<and> sc_shop_id c = shopId) (stock_counts db))
            [])"

section \<open>Quantities and the write set\<close>

lemma clampQty_spec: "clampQty v = Fin (of_int (spec_clamp v))"
  by (cases v) (auto simp: clampQty_def spec_clamp_def Math_max_def Math_min_def max_def min_def)

lemma spec_clamp_range: "0 \<le> spec_clamp v \<and> spec_clamp v \<le> 999999"
  by (cases v) (auto simp: spec_clamp_def)

lemma pg_integer_clampQty: "pg_integer (clampQty v) = Some (spec_clamp v)"
  by (simp add: clampQty_spec)

lemma js_gt_clampQty: "js_gt (clampQty v) (Fin 0) = (spec_clamp v \<noteq> 0)"
  using spec_clamp_range [of v] by (auto simp: clampQty_spec)

lemma countsArray_spec:
  "countsArray st = filter (\<lambda>c. spec_clamp (boxes c) \<noteq> 0 \<or> spec_clamp (singles c) \<noteq> 0)
          (Object_values (counts st))"
  by (simp add: countsArray_def js_gt_clampQty)

lemma to_row_countsToSave:
  "map to_row (countsToSave st uid) = map Some (spec_write_set st uid)"
  by (simp add: countsToSave_def spec_write_set_def to_row_def pg_integer_clampQty countsArray_spec
      del: pg_integer.simps)

lemma saved_rows: "map (the \<circ> to_row) (countsToSave st uid) = spec_write_set st uid"
proof -
  have "map (the \<circ> to_row) (countsToSave st uid) = map the (map to_row (countsToSave st uid))"
    by simp
  also have "\<dots> = spec_write_set st uid"
    unfolding to_row_countsToSave by (simp add: comp_def)
  finally show ?thesis .
qed

lemma cs_key_countsToSave:
  "map cs_key (countsToSave st uid) = map sc_key (spec_write_set st uid)"
  by (simp add: countsToSave_def spec_write_set_def cs_key_def sc_key_def countsArray_spec)

lemma upsert_countsToSave:
  "upsert None (countsToSave st uid) tbl =
     (if distinct (map sc_key (spec_write_set st uid))
      then Inr (fold upsert_row (spec_write_set st uid) tbl)
      else Inl \<lparr>err_code = ''21000'',
                 err_message = ''ON CONFLICT DO UPDATE command cannot affect row a second time''\<rparr>)"
  unfolding upsert_def
  by (simp only: to_row_countsToSave saved_rows cs_key_countsToSave option.case)
     (auto)

lemma find_replace:
  "find (\<lambda>x. sc_key x = k) (map (\<lambda>x. if sc_key x = sc_key r then r else x) tbl) =
     (if k = sc_key r then (if sc_key r \<in> sc_key ` set tbl then Some r else None)
      else find (\<lambda>x. sc_key x = k) tbl)"
  by (induction tbl) auto

lemma find_append_one:
  "find P (tbl @ [r]) = (case find P tbl of Some x \<Rightarrow> Some x | None \<Rightarrow> if P r then Some r else None)"
  by (induction tbl) auto

lemma find_None_key: "k \<notin> sc_key ` set tbl \<Longrightarrow> find (\<lambda>x. sc_key x = k) tbl = None"
  by (induction tbl) auto

lemma lookup_upsert_row_same:
  "lookup_count (upsert_row r tbl) (sc_key r) = Some r"
  by (simp add: lookup_count_def upsert_row_def find_replace find_append_one find_None_key)

lemma lookup_upsert_row_other:
  "k \<noteq> sc_key r \<Longrightarrow> lookup_count (upsert_row r tbl) k = lookup_count tbl k"
  by (simp add: lookup_count_def upsert_row_def find_replace find_append_one split: option.splits)

lemma lookup_fold_other:
  "k \<notin> sc_key ` set rs \<Longrightarrow> lookup_count (fold upsert_row rs tbl) k = lookup_count tbl k"
  by (induction rs arbitrary: tbl) (auto simp: lookup_upsert_row_other)

lemma lookup_fold_same:
  "distinct (map sc_key rs) \<Longrightarrow> r \<in> set rs \<Longrightarrow>
     lookup_count (fold upsert_row rs tbl) (sc_key r) = Some r"
proof (induction rs arbitrary: tbl)
  case Nil
  then show ?case by simp
next
  case (Cons a rs)
  show ?case
  proof (cases "r \<in> set rs")
    case True
    with Cons show ?thesis by simp
  next
    case False
    with Cons.prems have ra: "r = a" and "sc_key a \<notin> sc_key ` set rs" by auto
    then show ?thesis
      by (simp add: lookup_fold_other lookup_upsert_row_same)
  qed
qed

lemma set_upsert_row: "set (upsert_row r tbl) \<subseteq> insert r (set tbl)"
  by (auto simp: upsert_row_def)

lemma set_fold_upsert: "set (fold upsert_row rs tbl) \<subseteq> set rs \<union> set tbl"
proof (induction rs arbitrary: tbl)
  case Nil
  then show ?case by simp
next
  case (Cons a rs)
  have "set (fold upsert_row rs (upsert_row a tbl)) \<subseteq> set rs \<union> set (upsert_row a tbl)"
    by (rule Cons.IH)
  with set_upsert_row [of a tbl] show ?case by auto
qed

lemma map_key_replace:
  "map sc_key (map (\<lambda>x. if sc_key x = sc_key r then r else x) tbl) = map sc_key tbl"
  by (induction tbl) auto

lemma distinct_upsert_row:
  "distinct (map sc_key tbl) \<Longrightarrow> distinct (map sc_key (upsert_row r tbl))"
  unfolding upsert_row_def using map_key_replace [of r tbl] by (simp del: map_map)

lemma distinct_fold_upsert:
  "distinct (map sc_key tbl) \<Longrightarrow> distinct (map sc_key (fold upsert_row rs tbl))"
  by (induction rs arbitrary: tbl) (simp_all add: distinct_upsert_row)

lemma saveCounts_alone:
  "saveCounts f st db =
     (if selectedSession st = [] \<or> selectedShop st = []
      then (Toast_error ''Please select a session and shop'', db)
      else if user_id st = None \<or> user_id st = Some []
      then (Toast_error ''You must be logged in to save counts'', db)
      else
        (case single (sessionError f)
                (filter (\<lambda>s. s_id s = selectedSession st) (stock_count_sessions db)) of
           Inl e \<Rightarrow> (save_thrown e, db)
         | Inr sessionData \<Rightarrow>
             (if s_status sessionData \<noteq> ''active'' then (Toast_error msg_not_active, db)
              else
                (case shop_access f st (the (user_id st)) db of
                   Some t \<Rightarrow> (t, db)
                 | None \<Rightarrow>
                     (if length (countsArray st) = 0 then (Toast_error msg_no_counts, db)
                      else
                        (case upsert (upsertError f) (countsToSave st (the (user_id st)))
                                (stock_counts db) of
                           Inl e \<Rightarrow> (save_thrown e, db)
                         | Inr tbl \<Rightarrow>
                             (Toast_success
                                (''Successfully saved '' @ show_nat (length (countsArray st))
                                   @ '' item count(s)!''),
                              db\<lparr>stock_counts := tbl\<rparr>)))))))"
  by (simp add: saveCounts_def saveCounts_validate_def saveCounts_write_def
      split: sum.splits option.splits)

lemma saveCounts_cases:
  assumes "saveCounts f st db = (t, db')"
  shows "db' = db \<or>
    (\<exists>uid s. user_id st = Some uid \<and> uid \<noteq> [] \<and> selectedSession st \<noteq> [] \<and> selectedShop st \<noteq> []
       \<and> filter (\<lambda>s. s_id s = selectedSession st) (stock_count_sessions db) = [s]
       \<and> s_status s = ''active'' \<and> countsArray st \<noteq> []
       \<and> distinct (map sc_key (spec_write_set st uid))
       \<and> db' = db\<lparr>stock_counts := fold upsert_row (spec_write_set st uid) (stock_counts db)\<rparr>)"
proof (cases "upsertError f")
  case None
  with assms show ?thesis
    unfolding saveCounts_alone
    by (auto simp: upsert_countsToSave single_def split: if_splits sum.splits option.splits list.splits)
next
  case (Some e)
  with assms show ?thesis
    unfolding saveCounts_alone
    by (auto simp: upsert_def split: if_splits sum.splits option.splits)
qed

lemmas run_defs = saveCounts_def saveCounts_validate_def saveCounts_write_def single_def shop_access_def countsArray_def countsToSave_def
  upsert_def to_row_def cs_key_def upsert_row_def sc_key_def clampQty_def Math_max_def Math_min_def
  Object_values_def show_nat.simps demo_db_def demo_page_def demo_row_def entry_def no_save_faults_def
  lookup_count_def

lemma distinct_item_ids: "counts_wf cs \<Longrightarrow> distinct (map item_id (Object_values cs))"
proof -
  assume wf: "counts_wf cs"
  then have "map item_id (Object_values cs) = map fst cs"
    by (induction cs) (auto simp: counts_wf_def Object_values_def)
  with wf show ?thesis by (simp add: counts_wf_def)
qed

lemma distinct_write_keys: "counts_wf (counts st) \<Longrightarrow> distinct (map sc_key (spec_write_set st uid))"
proof -
  assume "counts_wf (counts st)"
  then have "distinct (map item_id (Object_values (counts st)))" by (rule distinct_item_ids)
  then have d: "distinct (map item_id (filter (\<lambda>c. spec_clamp (boxes c) \<noteq> 0 \<or> spec_clamp (singles c) \<noteq> 0)
          (Object_values (counts st))))" by (rule distinct_map_filter)
  have "map sc_key (spec_write_set st uid) = map (\<lambda>i. (selectedSession st, selectedShop st, i))
      (map item_id (filter (\<lambda>c. spec_clamp (boxes c) \<noteq> 0 \<or> spec_clamp (singles c) \<noteq> 0)
          (Object_values (counts st))))"
    by (simp add: spec_write_set_def sc_key_def comp_def)
  with d show ?thesis by (simp add: distinct_map inj_on_def del: map_map)
qed

lemma saveCounts_new_rows:
  assumes "saveCounts f st db = (t, db')"
    and "r \<in> set (stock_counts db')" and "r \<notin> set (stock_counts db)"
  shows "\<exists>c \<in> set (Object_values (counts st)).
           sc_item_id r = item_id c
         \<and> clampQty (boxes c) = Fin (of_int (sc_boxes r))
         \<and> clampQty (singles c) = Fin (of_int (sc_singles r))
         \<and> sc_boxes r = spec_clamp (boxes c) \<and> sc_singles r = spec_clamp (singles c)
         \<and> 0 \<le> sc_boxes r \<and> sc_boxes r \<le> 999999
         \<and> 0 \<le> sc_singles r \<and> sc_singles r \<le> 999999"
proof -
  from saveCounts_cases [OF assms(1)] assms(2,3)
  obtain uid where db': "db' = db\<lparr>stock_counts := fold upsert_row (spec_write_set st uid) (stock_counts db)\<rparr>"
    by auto
  with assms(2) have "r \<in> set (fold upsert_row (spec_write_set st uid) (stock_counts db))" by simp
  with set_fold_upsert [of "spec_write_set st uid" "stock_counts db"] assms(3)
  have "r \<in> set (spec_write_set st uid)" by auto
  then obtain c where c: "c \<in> set (Object_values (counts st))"
    and r: "r = \<lparr>sc_session_id = selectedSession st, sc_shop_id = selectedShop st,
                sc_item_id = item_id c, sc_boxes = spec_clamp (boxes c),
                sc_singles = spec_clamp (singles c), sc_counted_by = uid\<rparr>"
    by (auto simp: spec_write_set_def)
  from r spec_clamp_range [of "boxes c"] spec_clamp_range [of "singles c"]
  have "sc_item_id r = item_id c
         \<and> clampQty (boxes c) = Fin (of_int (sc_boxes r))
         \<and> clampQty (singles c) = Fin (of_int (sc_singles r))
         \<and> sc_boxes r = spec_clamp (boxes c) \<and> sc_singles r = spec_clamp (singles c)
         \<and> 0 \<le> sc_boxes r \<and> sc_boxes r \<le> 999999
         \<and> 0 \<le> sc_singles r \<and> sc_singles r \<le> 999999"
    by (simp add: clampQty_spec)
  with c show ?thesis by blast
qed

lemma save_ready_run:
  assumes "save_ready f st db"
  shows "saveCounts f st db =
     (if length (countsArray st) = 0 then (Toast_error msg_no_counts, db)
      else
        (case upsert (upsertError f) (countsToSave st (the (user_id st))) (stock_counts db) of
           Inl e \<Rightarrow> (save_thrown e, db)
         | Inr tbl \<Rightarrow>
             (Toast_success
                (''Successfully saved '' @ show_nat (length (countsArray st)) @ '' item count(s)!''),
              db\<lparr>stock_counts := tbl\<rparr>)))"
proof -
  from assms obtain s where s: "filter (\<lambda>s. s_id s = selectedSession st) (stock_count_sessions db) = [s]"
    and act: "s_status s = ''active''"
    by (auto simp: save_ready_def)
  have acc: "shop_access f st (the (user_id st)) db = None"
  proof (cases "role st = ''employee''")
    case True
    with assms obtain a where
      "filter (\<lambda>a. usa_user_id a = the (user_id st) \<and> usa_shop_id a = selectedShop st)
                   (user_shop_assignments db) = [a]"
      by (auto simp: save_ready_def length_Suc_conv)
    with True assms show ?thesis by (simp add: shop_access_def single_def save_ready_def)
  next
    case False
    then show ?thesis by (simp add: shop_access_def)
  qed
  from assms s act acc show ?thesis
    unfolding saveCounts_alone save_ready_def by (auto simp: single_def)
qed

lemma floor_five_halves: "\<lfloor>5 / 2 :: rat\<rfloor> = 2"
  by (rule floor_unique) simp_all

text \<open>
  Claim C4. \<open>clampQty\<close> is the specification's clamp on every JavaScript number: a
  finite value is floored and then brought into the inclusive range 0 to 999999. When the
  guards pass and the upsert request does not fail, every submitted entry whose clamped
  quantities are not both zero is persisted under its key with exactly its clamped boxes
  and singles. And whatever \<open>saveCounts\<close> returns, every Stock Count row it has
  added or changed carries the clamped values of a submitted entry.
\<close>

theorem saveCounts_clamps_quantities:
  "(\<forall>v. clampQty v = Fin (of_int (spec_clamp v)))
   \<and> (\<forall>q. spec_clamp (Fin q) = max 0 (min 999999 \<lfloor>q\<rfloor>))
   \<and> spec_clamp NaN = 0 \<and> spec_clamp PosInf = 999999 \<and> spec_clamp NegInf = 0
   \<and> (save_ready f st db \<and> upsertError f = None \<and> counts_wf (counts st)
        \<and> e \<in> set (Object_values (counts st))
        \<and> (spec_clamp (boxes e) \<noteq> 0 \<or> spec_clamp (singles e) \<noteq> 0)
      \<longrightarrow> lookup_count (stock_counts (snd (saveCounts f st db)))
            (selectedSession st, selectedShop st, item_id e)
          = Some \<lparr>sc_session_id = selectedSession st, sc_shop_id = selectedShop st,
                  sc_item_id = item_id e, sc_boxes = spec_clamp (boxes e),
                  sc_singles = spec_clamp (singles e), sc_counted_by = the (user_id st)\<rparr>)
   \<and> (saveCounts f st db = (t, db') \<and> r \<in> set (stock_counts db') \<and> r \<notin> set (stock_counts db)
      \<longrightarrow> (\<exists>c \<in> set (Object_values (counts st)).
             sc_item_id r = item_id c
           \<and> sc_boxes r = spec_clamp (boxes c) \<and> sc_singles r = spec_clamp (singles c)
           \<and> 0 \<le> sc_boxes r \<and> sc_boxes r \<le> 999999
           \<and> 0 \<le> sc_singles r \<and> sc_singles r \<le> 999999))"
proof -
  have spec: "\<forall>q. spec_clamp (Fin q) = max 0 (min 999999 \<lfloor>q\<rfloor>)"
    "spec_clamp NaN = 0" "spec_clamp PosInf = 999999" "spec_clamp NegInf = 0"
    by (simp_all add: spec_clamp_def)
  have persisted: "lookup_count (stock_counts (snd (saveCounts f st db)))
            (selectedSession st, selectedShop st, item_id e)
          = Some \<lparr>sc_session_id = selectedSession st, sc_shop_id = selectedShop st,
                  sc_item_id = item_id e, sc_boxes = spec_clamp (boxes e),
                  sc_singles = spec_clamp (singles e), sc_counted_by = the (user_id st)\<rparr>"
    if a: "save_ready f st db \<and> upsertError f = None \<and> counts_wf (counts st)
        \<and> e \<in> set (Object_values (counts st))
        \<and> (spec_clamp (boxes e) \<noteq> 0 \<or> spec_clamp (singles e) \<noteq> 0)"
  proof -
    let ?ws = "spec_write_set st (the (user_id st))"
    let ?r = "\<lparr>sc_session_id = selectedSession st, sc_shop_id = selectedShop st,
                  sc_item_id = item_id e, sc_boxes = spec_clamp (boxes e),
                  sc_singles = spec_clamp (singles e), sc_counted_by = the (user_id st)\<rparr>"
    from a have ready: "save_ready f st db" and nofault: "upsertError f = None"
      and wf: "counts_wf (counts st)" by simp_all
    from a have mem: "?r \<in> set ?ws" by (auto simp: spec_write_set_def)
    from a have "e \<in> set (countsArray st)" by (simp add: countsArray_spec)
    then have ne: "length (countsArray st) \<noteq> 0" by (cases "countsArray st") simp_all
    have d: "distinct (map sc_key ?ws)" using wf by (rule distinct_write_keys)
    have run: "snd (saveCounts f st db) = db\<lparr>stock_counts := fold upsert_row ?ws (stock_counts db)\<rparr>"
      unfolding save_ready_run [OF ready] using ne d nofault by (simp add: upsert_countsToSave)
    have key: "sc_key ?r = (selectedSession st, selectedShop st, item_id e)"
      by (simp add: sc_key_def)
    from lookup_fold_same [OF d mem, of "stock_counts db"] show ?thesis
      unfolding run key by simp
  qed
  have new_rows: "\<exists>c \<in> set (Object_values (counts st)).
             sc_item_id r = item_id c
           \<and> sc_boxes r = spec_clamp (boxes c) \<and> sc_singles r = spec_clamp (singles c)
           \<and> 0 \<le> sc_boxes r \<and> sc_boxes r \<le> 999999
           \<and> 0 \<le> sc_singles r \<and> sc_singles r \<le> 999999"
    if b: "saveCounts f st db = (t, db') \<and> r \<in> set (stock_counts db') \<and> r \<notin> set (stock_counts db)"
  proof -
    from b have "saveCounts f st db = (t, db')" "r \<in> set (stock_counts db')"
      "r \<notin> set (stock_counts db)" by simp_all
    from saveCounts_new_rows [OF this] show ?thesis by blast
  qed
  from spec persisted new_rows show ?thesis by (simp add: clampQty_spec)
qed

text \<open>
  Boxes \<open>-5\<close> are persisted as 0, singles \<open>2.5\<close> as 2, and boxes \<open>10000000\<close> as
  999999.
\<close>

theorem saveCounts_clamps_quantities_witness:
  "save_ready no_save_faults
     (demo_page ''s1'' [entry ''A'' (Fin (- 5)) (Fin (5 / 2)), entry ''C'' (Fin 10000000) (Fin 2)]) demo_db
   \<and> counts_wf [entry ''A'' (Fin (- 5)) (Fin (5 / 2)), entry ''C'' (Fin 10000000) (Fin 2)]
   \<and> lookup_count (stock_counts (snd (saveCounts no_save_faults
        (demo_page ''s1'' [entry ''A'' (Fin (- 5)) (Fin (5 / 2)), entry ''C'' (Fin 10000000) (Fin 2)])
        demo_db))) (''s1'', ''shop1'', ''A'') = Some (demo_row ''A'' 0 2)
   \<and> lookup_count (stock_counts (snd (saveCounts no_save_faults
        (demo_page ''s1'' [entry ''A'' (Fin (- 5)) (Fin (5 / 2)), entry ''C'' (Fin 10000000) (Fin 2)])
        demo_db))) (''s1'', ''shop1'', ''C'') = Some (demo_row ''C'' 999999 2)
   \<and> clampQty (Fin (5 / 2)) = Fin 2"
proof -
  let ?st = "demo_page ''s1'' [entry ''A'' (Fin (- 5)) (Fin (5 / 2)), entry ''C'' (Fin 10000000) (Fin 2)]"
  let ?a = "\<lparr>item_id = ''A'', boxes = Fin (- 5), singles = Fin (5 / 2)\<rparr>"
  let ?c = "\<lparr>item_id = ''C'', boxes = Fin 10000000, singles = Fin 2\<rparr>"
  have ready: "save_ready no_save_faults ?st demo_db"
    by (simp add: save_ready_def demo_page_def demo_db_def no_save_faults_def)
  have nofault: "upsertError no_save_faults = None" by (simp add: no_save_faults_def)
  have wf: "counts_wf [entry ''A'' (Fin (- 5)) (Fin (5 / 2)), entry ''C'' (Fin 10000000) (Fin 2)]"
    by (simp add: counts_wf_def entry_def)
  have st: "counts ?st = [entry ''A'' (Fin (- 5)) (Fin (5 / 2)), entry ''C'' (Fin 10000000) (Fin 2)]"
    "selectedSession ?st = ''s1''" "selectedShop ?st = ''shop1''" "the (user_id ?st) = ''u1''"
    by (simp_all add: demo_page_def)
  have mem: "?a \<in> set (Object_values (counts ?st))" "?c \<in> set (Object_values (counts ?st))"
    by (simp_all add: demo_page_def Object_values_def entry_def)
  have va: "spec_clamp (boxes ?a) = 0" "spec_clamp (singles ?a) = 2"
    by (simp_all add: spec_clamp_def floor_five_halves)
  have vc: "spec_clamp (boxes ?c) = 999999" "spec_clamp (singles ?c) = 2"
    by (simp_all add: spec_clamp_def)
  from saveCounts_clamps_quantities [of no_save_faults ?st demo_db ?a] ready nofault wf mem(1) va
  have one: "lookup_count (stock_counts (snd (saveCounts no_save_faults ?st demo_db)))
      (''s1'', ''shop1'', ''A'') = Some (demo_row ''A'' 0 2)"
    by (simp add: st demo_row_def)
  from saveCounts_clamps_quantities [of no_save_faults ?st demo_db ?c] ready nofault wf mem(2) vc
  have two: "lookup_count (stock_counts (snd (saveCounts no_save_faults ?st demo_db)))
      (''s1'', ''shop1'', ''C'') = Some (demo_row ''C'' 999999 2)"
    by (simp add: st demo_row_def)
  from saveCounts_clamps_quantities [of no_save_faults ?st demo_db ?a]
  have "\<forall>v. clampQty v = Fin (of_int (spec_clamp v))" by (rule conjunct1)
  then have three: "clampQty (Fin (5 / 2)) = Fin 2" by (simp add: spec_clamp_def floor_five_halves)
  from ready wf one two three show ?thesis by simp
qed

text \<open>
  Claim C1. The only thing \<open>saveCounts\<close> ever persists is the one upsert of the
  surviving write set: the database after a call is the database before it, or that with
  the upsert applied to the stock counts. When the guards pass, the upsert request does
  not fail, and some entry survives, the call succeeds with the upsert applied: every
  surviving item's key holds exactly the new row (new boxes, singles and
  \<open>counted_by\<close>, nothing of the prior row), every other key is as before, and keys
  stay unique.
\<close>

theorem saveCounts_upsert:
  "(snd (saveCounts f st db) = db
      \<or> snd (saveCounts f st db)
          = db\<lparr>stock_counts := fold upsert_row (spec_write_set st (the (user_id st))) (stock_counts db)\<rparr>)
   \<and> (save_ready f st db \<and> upsertError f = None \<and> counts_wf (counts st)
        \<and> spec_write_set st (the (user_id st)) \<noteq> []
      \<longrightarrow>
        (\<exists>msg. saveCounts f st db =
            (Toast_success msg,
             db\<lparr>stock_counts := fold upsert_row (spec_write_set st (the (user_id st))) (stock_counts db)\<rparr>))
       \<and> (\<forall>r \<in> set (spec_write_set st (the (user_id st))).
            lookup_count (stock_counts (snd (saveCounts f st db))) (sc_key r) = Some r)
       \<and> (\<forall>k. k \<notin> sc_key ` set (spec_write_set st (the (user_id st))) \<longrightarrow>
            lookup_count (stock_counts (snd (saveCounts f st db))) k = lookup_count (stock_counts db) k)
       \<and> (distinct (map sc_key (stock_counts db)) \<longrightarrow>
            distinct (map sc_key (stock_counts (snd (saveCounts f st db))))))"
proof -
  let ?ws = "spec_write_set st (the (user_id st))"
  obtain t db' where r: "saveCounts f st db = (t, db')" by (cases "saveCounts f st db")
  from saveCounts_cases [OF r]
  have "db' = db \<or> db' = db\<lparr>stock_counts := fold upsert_row ?ws (stock_counts db)\<rparr>" by auto
  with r have only: "snd (saveCounts f st db) = db
      \<or> snd (saveCounts f st db) = db\<lparr>stock_counts := fold upsert_row ?ws (stock_counts db)\<rparr>"
    by simp
  have main: "(\<exists>msg. saveCounts f st db =
            (Toast_success msg, db\<lparr>stock_counts := fold upsert_row ?ws (stock_counts db)\<rparr>))
       \<and> (\<forall>r \<in> set ?ws.
            lookup_count (stock_counts (snd (saveCounts f st db))) (sc_key r) = Some r)
       \<and> (\<forall>k. k \<notin> sc_key ` set ?ws \<longrightarrow>
            lookup_count (stock_counts (snd (saveCounts f st db))) k = lookup_count (stock_counts db) k)
       \<and> (distinct (map sc_key (stock_counts db)) \<longrightarrow>
            distinct (map sc_key (stock_counts (snd (saveCounts f st db)))))"
    if a: "save_ready f st db \<and> upsertError f = None \<and> counts_wf (counts st) \<and> ?ws \<noteq> []"
  proof -
    from a have ready: "save_ready f st db" and nofault: "upsertError f = None"
      and wf: "counts_wf (counts st)" and nonempty: "?ws \<noteq> []" by simp_all
    have d: "distinct (map sc_key ?ws)" using wf by (rule distinct_write_keys)
    from nonempty have ne: "length (countsArray st) \<noteq> 0"
      by (simp add: spec_write_set_def countsArray_spec)
    have run: "saveCounts f st db =
         (Toast_success (''Successfully saved '' @ show_nat (length (countsArray st)) @ '' item count(s)!''),
          db\<lparr>stock_counts := fold upsert_row ?ws (stock_counts db)\<rparr>)"
      unfolding save_ready_run [OF ready] using ne d nofault by (simp add: upsert_countsToSave)
    have "\<forall>r \<in> set ?ws. lookup_count (fold upsert_row ?ws (stock_counts db)) (sc_key r) = Some r"
      using d by (simp add: lookup_fold_same)
    moreover have "\<forall>k. k \<notin> sc_key ` set ?ws \<longrightarrow>
         lookup_count (fold upsert_row ?ws (stock_counts db)) k = lookup_count (stock_counts db) k"
      by (simp add: lookup_fold_other)
    moreover have "distinct (map sc_key (stock_counts db)) \<longrightarrow>
         distinct (map sc_key (fold upsert_row ?ws (stock_counts db)))"
      by (simp add: distinct_fold_upsert)
    ultimately show ?thesis unfolding run by simp
  qed
  from only main show ?thesis by blast
qed

text \<open>
  Saving A at (3, 0) and B at (0, 5) when B was persisted at (2, 2) leaves A at (3, 0) and
  B at (0, 5).
\<close>

theorem saveCounts_upsert_witness:
  "save_ready no_save_faults (demo_page ''s1'' [entry ''A'' (Fin 3) (Fin 0), entry ''B'' (Fin 0) (Fin 5)]) demo_db
   \<and> counts_wf [entry ''A'' (Fin 3) (Fin 0), entry ''B'' (Fin 0) (Fin 5)]
   \<and> lookup_count (stock_counts demo_db) (''s1'', ''shop1'', ''B'') =
        Some \<lparr>sc_session_id = ''s1'', sc_shop_id = ''shop1'', sc_item_id = ''B'', sc_boxes = 2,
          sc_singles = 2, sc_counted_by = ''u0''\<rparr>
   \<and> snd (saveCounts no_save_faults
        (demo_page ''s1'' [entry ''A'' (Fin 3) (Fin 0), entry ''B'' (Fin 0) (Fin 5)]) demo_db)
      = demo_db\<lparr>stock_counts := [demo_row ''B'' 0 5, demo_row ''A'' 3 0]\<rparr>
   \<and> lookup_count (stock_counts (snd (saveCounts no_save_faults
        (demo_page ''s1'' [entry ''A'' (Fin 3) (Fin 0), entry ''B'' (Fin 0) (Fin 5)]) demo_db)))
        (''s1'', ''shop1'', ''A'') = Some (demo_row ''A'' 3 0)
   \<and> lookup_count (stock_counts (snd (saveCounts no_save_faults
        (demo_page ''s1'' [entry ''A'' (Fin 3) (Fin 0), entry ''B'' (Fin 0) (Fin 5)]) demo_db)))
        (''s1'', ''shop1'', ''B'') = Some (demo_row ''B'' 0 5)"
proof -
  let ?st = "demo_page ''s1'' [entry ''A'' (Fin 3) (Fin 0), entry ''B'' (Fin 0) (Fin 5)]"
  have ready: "save_ready no_save_faults ?st demo_db"
    by (simp add: save_ready_def demo_page_def demo_db_def no_save_faults_def)
  have nofault: "upsertError no_save_faults = None" by (simp add: no_save_faults_def)
  have wf: "counts_wf (counts ?st)" by (simp add: counts_wf_def demo_page_def entry_def)
  have ws: "spec_write_set ?st (the (user_id ?st)) = [demo_row ''A'' 3 0, demo_row ''B'' 0 5]"
    by (simp add: spec_write_set_def spec_clamp_def Object_values_def demo_page_def entry_def demo_row_def)
  then have nonempty: "spec_write_set ?st (the (user_id ?st)) \<noteq> []" by simp
  have old: "lookup_count (stock_counts demo_db) (''s1'', ''shop1'', ''B'') =
        Some \<lparr>sc_session_id = ''s1'', sc_shop_id = ''shop1'', sc_item_id = ''B'', sc_boxes = 2,
          sc_singles = 2, sc_counted_by = ''u0''\<rparr>"
    by (simp add: lookup_count_def demo_db_def sc_key_def)
  have keys: "sc_key (demo_row ''A'' 3 0) = (''s1'', ''shop1'', ''A'')"
    "sc_key (demo_row ''B'' 0 5) = (''s1'', ''shop1'', ''B'')"
    by (simp_all add: sc_key_def demo_row_def)
  have tbl: "fold upsert_row [demo_row ''A'' 3 0, demo_row ''B'' 0 5] (stock_counts demo_db)
      = [demo_row ''B'' 0 5, demo_row ''A'' 3 0]"
    by (simp add: upsert_row_def sc_key_def demo_row_def demo_db_def)
  from saveCounts_upsert [of no_save_faults ?st demo_db] ready nofault wf nonempty
  have "(\<exists>msg. saveCounts no_save_faults ?st demo_db =
            (Toast_success msg,
             demo_db\<lparr>stock_counts :=
               fold upsert_row (spec_write_set ?st (the (user_id ?st))) (stock_counts demo_db)\<rparr>))
       \<and> (\<forall>r \<in> set (spec_write_set ?st (the (user_id ?st))).
            lookup_count (stock_counts (snd (saveCounts no_save_faults ?st demo_db))) (sc_key r) = Some r)"
    by blast
  then show ?thesis using ready wf old keys tbl unfolding ws
    by (auto simp: demo_page_def)
qed

text \<open>
  Claim C3, as the code has it. The rejection is decided by the status read, the first
  request of the call: when that read finds the session not \<open>active\<close>, the call ends
  there, before the assignment read and the upsert, and so writes nothing; with a session
  and a shop selected, a user logged in and the read answered, its toast is the specific
  not-active message.
\<close>

theorem saveCounts_rejects_inactive:
  assumes "filter (\<lambda>s. s_id s = selectedSession st) (stock_count_sessions db) = [s]"
    and "s_status s \<noteq> ''active''"
  shows "saveCounts_validate f st db \<noteq> None
       \<and> (selectedSession st \<noteq> [] \<and> selectedShop st \<noteq> [] \<and> user_id st \<noteq> None
            \<and> user_id st \<noteq> Some [] \<and> sessionError f = None
          \<longrightarrow> saveCounts_validate f st db = Some (Toast_error msg_not_active))
       \<and> saveCounts f st db = (the (saveCounts_validate f st db), db)"
  using assms unfolding saveCounts_def saveCounts_validate_def
  by (auto simp: single_def split: option.splits sum.splits)

theorem saveCounts_rejects_inactive_witness:
  "filter (\<lambda>s. s_id s = selectedSession (demo_page ''s0'' [entry ''A'' (Fin 3) (Fin 0)]))
       (stock_count_sessions demo_db)
     = [\<lparr>s_id = ''s0'', s_name = ''Winter'', s_status = ''completed'', s_created_by = Some ''m1'',
          s_completed_at = Some ''2024-01-31T10:00:00.000Z''\<rparr>]
   \<and> saveCounts_validate no_save_faults (demo_page ''s0'' [entry ''A'' (Fin 3) (Fin 0)]) demo_db
     = Some (Toast_error msg_not_active)
   \<and> saveCounts no_save_faults (demo_page ''s0'' [entry ''A'' (Fin 3) (Fin 0)]) demo_db
     = (Toast_error msg_not_active, demo_db)"
proof -
  let ?st = "demo_page ''s0'' [entry ''A'' (Fin 3) (Fin 0)]"
  let ?s = "\<lparr>s_id = ''s0'', s_name = ''Winter'', s_status = ''completed'', s_created_by = Some ''m1'',
          s_completed_at = Some ''2024-01-31T10:00:00.000Z''\<rparr>"
  have one: "filter (\<lambda>s. s_id s = selectedSession ?st) (stock_count_sessions demo_db) = [?s]"
    by (simp add: demo_page_def demo_db_def)
  have st: "s_status ?s \<noteq> ''active''" by simp
  have pre: "selectedSession ?st \<noteq> [] \<and> selectedShop ?st \<noteq> [] \<and> user_id ?st \<noteq> None
            \<and> user_id ?st \<noteq> Some [] \<and> sessionError no_save_faults = None"
    by (simp add: demo_page_def no_save_faults_def)
  from saveCounts_rejects_inactive [OF one st, of no_save_faults] pre
  have "saveCounts_validate no_save_faults ?st demo_db = Some (Toast_error msg_not_active)
      \<and> saveCounts no_save_faults ?st demo_db = (Toast_error msg_not_active, demo_db)"
    by simp
  with one show ?thesis by simp
qed

text \<open>
  The claim as it is written fails: the upsert carries no condition on the session. An
  employee's save reads the session \<open>s1\<close> while it is active and passes the shop check;
  a manager then completes the session; the save's upsert arrives at the completed
  session, writes its row and reports success.
\<close>

theorem saveCounts_write_after_completion_counterexample:
  "saveCounts_validate no_save_faults (demo_page ''s1'' [entry ''A'' (Fin 3) (Fin 0)]) demo_db = None
   \<and> shop_access no_save_faults (demo_page ''s1'' [entry ''A'' (Fin 3) (Fin 0)]) ''u1'' demo_db = None
   \<and> map s_status (stock_count_sessions
         (snd (completeSession no_complete_faults ''2024-06-01T09:00:00.000Z'' ''s1'' demo_db)))
       = [''completed'', ''completed'']
   \<and> saveCounts_write no_save_faults (demo_page ''s1'' [entry ''A'' (Fin 3) (Fin 0)])
         (snd (completeSession no_complete_faults ''2024-06-01T09:00:00.000Z'' ''s1'' demo_db))
       = (Toast_success ''Successfully saved 1 item count(s)!'',
          (snd (completeSession no_complete_faults ''2024-06-01T09:00:00.000Z'' ''s1'' demo_db))
            \<lparr>stock_counts := stock_counts demo_db @ [demo_row ''A'' 3 0]\<rparr>)"
  by (simp add: run_defs completeSession_def completeSession_check_def completeSession_update_def
      no_complete_faults_def)

text \<open>
  Claim C5. An entry whose clamped boxes and singles are both zero is not in the write
  set, and the row of its key is after the call what it was before (none inserted, none
  removed); when no entry survives nothing is written, and with the guards passed the
  toast is the nothing-to-save message.
\<close>

theorem saveCounts_skips_zero_entries:
  "(counts_wf (counts st) \<and> c \<in> set (Object_values (counts st))
      \<and> clampQty (boxes c) = Fin 0 \<and> clampQty (singles c) = Fin 0
    \<longrightarrow> c \<notin> set (countsArray st)
      \<and> lookup_count (stock_counts (snd (saveCounts f st db)))
           (selectedSession st, selectedShop st, item_id c)
        = lookup_count (stock_counts db) (selectedSession st, selectedShop st, item_id c))
   \<and> (countsArray st = [] \<longrightarrow> snd (saveCounts f st db) = db)
   \<and> (countsArray st = [] \<and> save_ready f st db
        \<longrightarrow> saveCounts f st db = (Toast_error msg_no_counts, db))"
proof (intro conjI impI)
  assume a: "counts_wf (counts st) \<and> c \<in> set (Object_values (counts st))
      \<and> clampQty (boxes c) = Fin 0 \<and> clampQty (singles c) = Fin 0"
  then show notin: "c \<notin> set (countsArray st)" by (simp add: countsArray_def)
  let ?k = "(selectedSession st, selectedShop st, item_id c)"
  obtain t db' where run: "saveCounts f st db = (t, db')" by (cases "saveCounts f st db")
  from saveCounts_cases [OF run]
  have "lookup_count (stock_counts db') ?k = lookup_count (stock_counts db) ?k"
  proof
    assume "db' = db" then show ?thesis by simp
  next
    assume "\<exists>uid s. user_id st = Some uid \<and> uid \<noteq> [] \<and> selectedSession st \<noteq> [] \<and> selectedShop st \<noteq> []
       \<and> filter (\<lambda>s. s_id s = selectedSession st) (stock_count_sessions db) = [s]
       \<and> s_status s = ''active'' \<and> countsArray st \<noteq> []
       \<and> distinct (map sc_key (spec_write_set st uid))
       \<and> db' = db\<lparr>stock_counts := fold upsert_row (spec_write_set st uid) (stock_counts db)\<rparr>"
    then obtain uid where
      db': "db' = db\<lparr>stock_counts := fold upsert_row (spec_write_set st uid) (stock_counts db)\<rparr>"
      by blast
    from a have d: "distinct (map item_id (Object_values (counts st)))"
      by (simp add: distinct_item_ids)
    have "?k \<notin> sc_key ` set (spec_write_set st uid)"
    proof
      assume "?k \<in> sc_key ` set (spec_write_set st uid)"
      then have "\<exists>c'. c' \<in> set (countsArray st) \<and> item_id c' = item_id c"
        by (auto simp: spec_write_set_def sc_key_def countsArray_spec)
      then obtain c' where c': "c' \<in> set (countsArray st)" and id: "item_id c' = item_id c"
        by blast
      from c' have "c' \<in> set (Object_values (counts st))" by (simp add: countsArray_def)
      with d id a have "c' = c" by (meson distinct_map inj_on_def)
      with c' notin show False by simp
    qed
    with db' show ?thesis by (simp add: lookup_fold_other)
  qed
  with run show "lookup_count (stock_counts (snd (saveCounts f st db))) ?k
        = lookup_count (stock_counts db) ?k" by simp
next
  assume e: "countsArray st = []"
  obtain t db' where run: "saveCounts f st db = (t, db')" by (cases "saveCounts f st db")
  from saveCounts_cases [OF run] e have "db' = db" by auto
  with run show "snd (saveCounts f st db) = db" by simp
next
  assume "countsArray st = [] \<and> save_ready f st db"
  then show "saveCounts f st db = (Toast_error msg_no_counts, db)"
    by (simp add: save_ready_run)
qed

theorem saveCounts_skips_zero_entries_witness:
  "counts_wf [entry ''A'' (Fin 3) (Fin 0), entry ''B'' (Fin 0) (Fin 0)]
   \<and> clampQty (Fin 0) = Fin 0
   \<and> save_ready no_save_faults (demo_page ''s1'' [entry ''B'' (Fin 0) (Fin 0)]) demo_db
   \<and> lookup_count (stock_counts (snd (saveCounts no_save_faults
        (demo_page ''s1'' [entry ''A'' (Fin 3) (Fin 0), entry ''B'' (Fin 0) (Fin 0)]) demo_db)))
        (''s1'', ''shop1'', ''B'')
      = Some \<lparr>sc_session_id = ''s1'', sc_shop_id = ''shop1'', sc_item_id = ''B'', sc_boxes = 2,
          sc_singles = 2, sc_counted_by = ''u0''\<rparr>
   \<and> saveCounts no_save_faults (demo_page ''s1'' [entry ''B'' (Fin 0) (Fin 0)]) demo_db
      = (Toast_error msg_no_counts, demo_db)"
proof -
  let ?st = "demo_page ''s1'' [entry ''A'' (Fin 3) (Fin 0), entry ''B'' (Fin 0) (Fin 0)]"
  let ?sz = "demo_page ''s1'' [entry ''B'' (Fin 0) (Fin 0)]"
  let ?b = "\<lparr>item_id = ''B'', boxes = Fin 0, singles = Fin 0\<rparr>"
  have wf: "counts_wf [entry ''A'' (Fin 3) (Fin 0), entry ''B'' (Fin 0) (Fin 0)]"
    by (simp add: counts_wf_def entry_def)
  have z: "clampQty (Fin 0) = Fin 0" by (simp add: clampQty_def Math_max_def Math_min_def)
  have mem: "?b \<in> set (Object_values (counts ?st))"
    by (simp add: Object_values_def demo_page_def entry_def)
  have ready: "save_ready no_save_faults ?sz demo_db"
    by (simp add: save_ready_def demo_page_def demo_db_def no_save_faults_def)
  have empty: "countsArray ?sz = []"
    by (simp add: countsArray_def Object_values_def demo_page_def entry_def z)
  have old: "lookup_count (stock_counts demo_db) (''s1'', ''shop1'', ''B'') =
        Some \<lparr>sc_session_id = ''s1'', sc_shop_id = ''shop1'', sc_item_id = ''B'', sc_boxes = 2,
          sc_singles = 2, sc_counted_by = ''u0''\<rparr>"
    by (simp add: lookup_count_def demo_db_def sc_key_def)
  have sel: "selectedSession ?st = ''s1''" "selectedShop ?st = ''shop1''" "counts ?st = 
     [entry ''A'' (Fin 3) (Fin 0), entry ''B'' (Fin 0) (Fin 0)]"
    by (simp_all add: demo_page_def)
  have pre: "counts_wf (counts ?st) \<and> ?b \<in> set (Object_values (counts ?st))
      \<and> clampQty (boxes ?b) = Fin 0 \<and> clampQty (singles ?b) = Fin 0"
    using wf mem z by (simp add: sel)
  from saveCounts_skips_zero_entries [of ?st ?b no_save_faults demo_db] pre
  have "lookup_count (stock_counts (snd (saveCounts no_save_faults ?st demo_db)))
           (selectedSession ?st, selectedShop ?st, item_id ?b)
        = lookup_count (stock_counts demo_db) (selectedSession ?st, selectedShop ?st, item_id ?b)"
    by blast
  then have one: "lookup_count (stock_counts (snd (saveCounts no_save_faults ?st demo_db)))
        (''s1'', ''shop1'', ''B'')
      = Some \<lparr>sc_session_id = ''s1'', sc_shop_id = ''shop1'', sc_item_id = ''B'', sc_boxes = 2,
          sc_singles = 2, sc_counted_by = ''u0''\<rparr>"
    using old by (simp add: sel)
  from saveCounts_skips_zero_entries [of ?sz ?b no_save_faults demo_db] ready empty
  have two: "saveCounts no_save_faults ?sz demo_db = (Toast_error msg_no_counts, demo_db)"
    by blast
  from wf z ready one two show ?thesis by simp
qed

section \<open>The session ledger\<close>

lemma ledger_inv_createSession: "ledger_inv db \<Longrightarrow> ledger_inv (snd (createSession cf new_id st db))"
  by (simp add: createSession_def ledger_inv_def Let_def split: option.splits)

lemma ledger_inv_completeSession_update:
  "ledger_inv db \<Longrightarrow> ledger_inv (snd (completeSession_update xf now sid db))"
  by (auto simp: completeSession_update_def ledger_inv_def list_all_iff split: option.splits)

lemma ledger_inv_completeSession:
  "ledger_inv db \<Longrightarrow> ledger_inv (snd (completeSession xf now sid db))"
  by (simp add: completeSession_def ledger_inv_completeSession_update split: option.splits)

lemma ledger_inv_deleteSession: "ledger_inv db \<Longrightarrow> ledger_inv (del_db (deleteSession df st db))"
  by (auto simp: deleteSession_def ledger_inv_def list_all_iff Let_def split: option.splits)

lemma sessions_saveCounts:
  "stock_count_sessions (snd (saveCounts sf cp db)) = stock_count_sessions db"
proof -
  obtain t db' where run: "saveCounts sf cp db = (t, db')" by (cases "saveCounts sf cp db")
  from saveCounts_cases [OF run] have "stock_count_sessions db' = stock_count_sessions db" by auto
  with run show ?thesis by simp
qed

lemma ledger_inv_saveCounts: "ledger_inv db \<Longrightarrow> ledger_inv (snd (saveCounts sf cp db))"
  by (simp add: ledger_inv_def sessions_saveCounts)

text \<open>
  Claim C6. Every operation on the ledger keeps \<open>completed_at\<close> set exactly on the
  completed sessions. A successful \<open>createSession\<close> adds one session, \<open>active\<close> and
  with \<open>completed_at\<close> null; every session row that the completion write changes has
  status \<open>completed\<close> and \<open>completed_at\<close> the time of that write.
\<close>

theorem ledger_operations_keep_invariant:
  assumes "ledger_inv db"
  shows "ledger_inv (snd (createSession cf new_id st db))
       \<and> ledger_inv (snd (completeSession_update xf now sid db))
       \<and> ledger_inv (snd (completeSession xf now sid db))
       \<and> ledger_inv (del_db (deleteSession df st db))
       \<and> ledger_inv (snd (saveCounts sf cp db))
       \<and> (\<forall>m. fst (createSession cf new_id st db) = Toast_success m \<longrightarrow>
            (\<exists>s. stock_count_sessions (snd (createSession cf new_id st db))
                   = stock_count_sessions db @ [s]
                 \<and> s_status s = ''active'' \<and> s_completed_at s = None))
       \<and> (\<forall>s \<in> set (stock_count_sessions (snd (completeSession_update xf now sid db))).
             s \<notin> set (stock_count_sessions db) \<longrightarrow>
             s_status s = ''completed'' \<and> s_completed_at s = Some now)"
proof -
  have "\<forall>m. fst (createSession cf new_id st db) = Toast_success m \<longrightarrow>
            (\<exists>s. stock_count_sessions (snd (createSession cf new_id st db))
                   = stock_count_sessions db @ [s]
                 \<and> s_status s = ''active'' \<and> s_completed_at s = None)"
    by (simp add: createSession_def Let_def split: option.splits)
  moreover have "\<forall>s \<in> set (stock_count_sessions (snd (completeSession_update xf now sid db))).
             s \<notin> set (stock_count_sessions db) \<longrightarrow>
             s_status s = ''completed'' \<and> s_completed_at s = Some now"
    by (auto simp: completeSession_update_def split: option.splits if_splits)
  ultimately show ?thesis
    using assms
    by (simp add: ledger_inv_createSession ledger_inv_completeSession_update
        ledger_inv_completeSession ledger_inv_deleteSession ledger_inv_saveCounts)
qed

theorem ledger_operations_keep_invariant_witness:
  "ledger_inv demo_db
   \<and> createSession \<lparr>cr_sessionError = None, cr_assignError = None\<rparr> ''s2'' demo_sessions_page demo_db
       = (Toast_success ''Session created successfully!'',
          demo_db\<lparr>stock_count_sessions := stock_count_sessions demo_db @
               [\<lparr>s_id = ''s2'', s_name = ''Summer'', s_status = ''active'', s_created_by = Some ''m1'',
                  s_completed_at = None\<rparr>],
             session_user_assignments := session_user_assignments demo_db @
               [\<lparr>sa_session_id = ''s2'', sa_user_id = ''u1''\<rparr>,
                \<lparr>sa_session_id = ''s2'', sa_user_id = ''u2''\<rparr>]\<rparr>)
   \<and> ledger_inv (snd (createSession \<lparr>cr_sessionError = None, cr_assignError = None\<rparr> ''s2''
        demo_sessions_page demo_db))
   \<and> stock_count_sessions (snd (completeSession no_complete_faults ''2024-06-01T09:00:00.000Z'' ''s1'' demo_db))
       = [\<lparr>s_id = ''s1'', s_name = ''Spring'', s_status = ''completed'', s_created_by = Some ''m1'',
            s_completed_at = Some ''2024-06-01T09:00:00.000Z''\<rparr>,
          \<lparr>s_id = ''s0'', s_name = ''Winter'', s_status = ''completed'', s_created_by = Some ''m1'',
            s_completed_at = Some ''2024-01-31T10:00:00.000Z''\<rparr>]
   \<and> ledger_inv (snd (completeSession no_complete_faults ''2024-06-01T09:00:00.000Z'' ''s1'' demo_db))"
proof -
  have inv: "ledger_inv demo_db" by (simp add: ledger_inv_def demo_db_def)
  have cr: "createSession \<lparr>cr_sessionError = None, cr_assignError = None\<rparr> ''s2'' demo_sessions_page demo_db
       = (Toast_success ''Session created successfully!'',
          demo_db\<lparr>stock_count_sessions := stock_count_sessions demo_db @
               [\<lparr>s_id = ''s2'', s_name = ''Summer'', s_status = ''active'', s_created_by = Some ''m1'',
                  s_completed_at = None\<rparr>],
             session_user_assignments := session_user_assignments demo_db @
               [\<lparr>sa_session_id = ''s2'', sa_user_id = ''u1''\<rparr>,
                \<lparr>sa_session_id = ''s2'', sa_user_id = ''u2''\<rparr>]\<rparr>)"
    by (simp add: createSession_def demo_sessions_page_def trim_def strip.simps white_space_def Let_def)
  have co: "stock_count_sessions (snd (completeSession no_complete_faults ''2024-06-01T09:00:00.000Z'' ''s1'' demo_db))
       = [\<lparr>s_id = ''s1'', s_name = ''Spring'', s_status = ''completed'', s_created_by = Some ''m1'',
            s_completed_at = Some ''2024-06-01T09:00:00.000Z''\<rparr>,
          \<lparr>s_id = ''s0'', s_name = ''Winter'', s_status = ''completed'', s_created_by = Some ''m1'',
            s_completed_at = Some ''2024-01-31T10:00:00.000Z''\<rparr>]"
    by (simp add: completeSession_def completeSession_check_def completeSession_update_def
        no_complete_faults_def single_def demo_db_def)
  from ledger_operations_keep_invariant [OF inv,
      of "\<lparr>cr_sessionError = None, cr_assignError = None\<rparr>" "''s2''" demo_sessions_page
         no_complete_faults "''2024-06-01T09:00:00.000Z''" "''s1''"]
  have "ledger_inv (snd (createSession \<lparr>cr_sessionError = None, cr_assignError = None\<rparr> ''s2''
        demo_sessions_page demo_db))
     \<and> ledger_inv (snd (completeSession no_complete_faults ''2024-06-01T09:00:00.000Z'' ''s1'' demo_db))"
    by blast
  with inv cr co show ?thesis by simp
qed

text \<open>
  Claim C9. \<open>deleteSession\<close> sends its three deletes in the order stock counts, session
  assignments, session row, whether or not the first two fail. A failure of the first or
  the second is logged and leaves that table as it was; the toast is decided by the third
  alone: its error is the operation's error, and without it the operation succeeds and the
  session row is gone.
\<close>

theorem deleteSession_order_and_failures:
  assumes "sessionToDelete st = Some sid" and "sid \<noteq> []"
  shows "del_requests (deleteSession f st db)
           = [Delete_stock_counts sid, Delete_session_user_assignments sid,
              Delete_stock_count_sessions sid]
       \<and> (case del_error f of
            None \<Rightarrow>
              del_toast (deleteSession f st db) = Some (Toast_success ''Session deleted successfully!'')
              \<and> stock_count_sessions (del_db (deleteSession f st db))
                  = filter (\<lambda>s. s_id s \<noteq> sid) (stock_count_sessions db)
          | Some e \<Rightarrow>
              del_toast (deleteSession f st db)
                  = Some (Toast_error (''Error deleting session: '' @ message_or_unknown e))
              \<and> stock_count_sessions (del_db (deleteSession f st db)) = stock_count_sessions db)
       \<and> (if del_countsError f = None
          then stock_counts (del_db (deleteSession f st db))
                 = filter (\<lambda>r. sc_session_id r \<noteq> sid) (stock_counts db)
          else stock_counts (del_db (deleteSession f st db)) = stock_counts db
               \<and> ''Error deleting counts:'' \<in> set (del_warnings (deleteSession f st db)))
       \<and> (if del_assignError f = None
          then session_user_assignments (del_db (deleteSession f st db))
                 = filter (\<lambda>a. sa_session_id a \<noteq> sid) (session_user_assignments db)
          else session_user_assignments (del_db (deleteSession f st db)) = session_user_assignments db
               \<and> ''Error deleting assignments:'' \<in> set (del_warnings (deleteSession f st db)))"
  using assms by (simp add: deleteSession_def Let_def split: option.splits)

theorem deleteSession_order_and_failures_witness:
  "sessionToDelete demo_sessions_page = Some ''s0''
   \<and> deleteSession \<lparr>del_countsError = Some demo_error, del_assignError = Some demo_error,
                     del_error = None\<rparr> demo_sessions_page demo_db
     = \<lparr>del_toast = Some (Toast_success ''Session deleted successfully!''),
        del_requests = [Delete_stock_counts ''s0'', Delete_session_user_assignments ''s0'',
                        Delete_stock_count_sessions ''s0''],
        del_warnings = [''Error deleting counts:'', ''Error deleting assignments:''],
        del_db = demo_db\<lparr>stock_count_sessions :=
           [\<lparr>s_id = ''s1'', s_name = ''Spring'', s_status = ''active'', s_created_by = Some ''m1'',
              s_completed_at = None\<rparr>]\<rparr>\<rparr>
   \<and> del_toast (deleteSession \<lparr>del_countsError = None, del_assignError = None,
                     del_error = Some demo_error\<rparr> demo_sessions_page demo_db)
     = Some (Toast_error ''Error deleting session: canceling statement due to statement timeout'')
   \<and> del_requests (deleteSession \<lparr>del_countsError = None, del_assignError = None,
                     del_error = Some demo_error\<rparr> demo_sessions_page demo_db)
     = [Delete_stock_counts ''s0'', Delete_session_user_assignments ''s0'',
        Delete_stock_count_sessions ''s0'']"
proof -
  have sel: "sessionToDelete demo_sessions_page = Some ''s0''" by (simp add: demo_sessions_page_def)
  have ne: "''s0'' \<noteq> []" by simp
  have one: "deleteSession \<lparr>del_countsError = Some demo_error, del_assignError = Some demo_error,
                     del_error = None\<rparr> demo_sessions_page demo_db
     = \<lparr>del_toast = Some (Toast_success ''Session deleted successfully!''),
        del_requests = [Delete_stock_counts ''s0'', Delete_session_user_assignments ''s0'',
                        Delete_stock_count_sessions ''s0''],
        del_warnings = [''Error deleting counts:'', ''Error deleting assignments:''],
        del_db = demo_db\<lparr>stock_count_sessions :=
           [\<lparr>s_id = ''s1'', s_name = ''Spring'', s_status = ''active'', s_created_by = Some ''m1'',
              s_completed_at = None\<rparr>]\<rparr>\<rparr>"
    by (simp add: deleteSession_def demo_sessions_page_def demo_db_def Let_def)
  from deleteSession_order_and_failures [OF sel ne,
      of "\<lparr>del_countsError = None, del_assignError = None, del_error = Some demo_error\<rparr>" demo_db]
  have "del_toast (deleteSession \<lparr>del_countsError = None, del_assignError = None,
                     del_error = Some demo_error\<rparr> demo_sessions_page demo_db)
     = Some (Toast_error ''Error deleting session: canceling statement due to statement timeout'')
   \<and> del_requests (deleteSession \<lparr>del_countsError = None, del_assignError = None,
                     del_error = Some demo_error\<rparr> demo_sessions_page demo_db)
     = [Delete_stock_counts ''s0'', Delete_session_user_assignments ''s0'',
        Delete_stock_count_sessions ''s0'']"
    by (simp add: message_or_unknown_def demo_error_def)
  with sel one show ?thesis by simp
qed

text \<open>
  Claim C2. Two callers complete the active session \<open>s1\<close>. Both read it while it is
  active, so both go on to the conditional update. The first update changes the row. The
  second matches no row and leaves the table as the first left it (the session is
  completed once, at the first caller's time), and that caller is shown the success
  toast too, not the already-completed one.
\<close>

theorem completeSession_second_writer_sees_success:
  "completeSession_check no_complete_faults ''s1'' demo_db = None
   \<and> completeSession_update no_complete_faults ''2024-06-01T09:00:00.000Z'' ''s1'' demo_db
      = (Toast_success msg_completed,
         demo_db\<lparr>stock_count_sessions :=
           [\<lparr>s_id = ''s1'', s_name = ''Spring'', s_status = ''completed'', s_created_by = Some ''m1'',
              s_completed_at = Some ''2024-06-01T09:00:00.000Z''\<rparr>,
            \<lparr>s_id = ''s0'', s_name = ''Winter'', s_status = ''completed'', s_created_by = Some ''m1'',
              s_completed_at = Some ''2024-01-31T10:00:00.000Z''\<rparr>]\<rparr>)
   \<and> completeSession_update no_complete_faults ''2024-06-01T09:00:01.000Z'' ''s1''
        (snd (completeSession_update no_complete_faults ''2024-06-01T09:00:00.000Z'' ''s1'' demo_db))
      = (Toast_success msg_completed,
         snd (completeSession_update no_complete_faults ''2024-06-01T09:00:00.000Z'' ''s1'' demo_db))
   \<and> Toast_success msg_completed \<noteq> Toast_error msg_already_completed"
  by (simp add: completeSession_check_def completeSession_update_def no_complete_faults_def
      single_def demo_db_def)

section \<open>The export\<close>

lemma shopItemsMap_fold:
  "(case fold (\<lambda>si m.
             (let m1 = (if m (si_shop_id si) = None then m(si_shop_id si \<mapsto> {}) else m)
              in m1(si_shop_id si \<mapsto> insert (si_item_id si) (the (m1 (si_shop_id si))))))
       sis m0 sh of None \<Rightarrow> {} | Some ids \<Rightarrow> ids)
   = (case m0 sh of None \<Rightarrow> {} | Some ids \<Rightarrow> ids)
     \<union> {si_item_id si | si. si \<in> set sis \<and> si_shop_id si = sh}"
proof (induction sis arbitrary: m0)
  case Nil
  then show ?case by simp
next
  case (Cons a sis)
  show ?case
    unfolding fold_simps Cons.IH
    by (auto simp: Let_def split: option.splits)
qed

lemma shopItemIds:
  "(case shopItemsMap sis sh of None \<Rightarrow> {} | Some ids \<Rightarrow> ids)
     = {si_item_id si | si. si \<in> set sis \<and> si_shop_id si = sh}"
  unfolding shopItemsMap_def shopItemsMap_fold by simp

lemma shopItemsFiltered:
  "filter (\<lambda>item. it_id item \<in> (case shopItemsMap sis (sh_id shop) of None \<Rightarrow> {} | Some ids \<Rightarrow> ids)) its
     = filter (spec_assigned sis shop) its"
proof -
  have "(it_id x \<in> {si_item_id si | si. si \<in> set sis \<and> si_shop_id si = sh_id shop})
      = spec_assigned sis shop x" for x
    unfolding spec_assigned_def list_ex_iff mem_Collect_eq by metis
  then show ?thesis unfolding shopItemIds by simp
qed

lemma itemsByCategory_fold:
  "map_option snd (fold (\<lambda>cat m. m(cat_id cat \<mapsto>
                  (cat, filter (\<lambda>item. it_category_id item = Some (cat_id cat)) sif))) cats m0 cid)
   = (if cid \<in> cat_id ` set cats then Some (filter (\<lambda>item. it_category_id item = Some cid) sif)
      else map_option snd (m0 cid))"
  by (induction cats arbitrary: m0) auto

lemma itemsByCategory_lookup:
  "map_option snd (itemsByCategory cats sif cid)
     = (if cid \<in> cat_id ` set cats then Some (filter (\<lambda>item. it_category_id item = Some cid) sif)
        else None)"
  unfolding itemsByCategory_def itemsByCategory_fold by simp




lemma mset_by_category:
  "distinct (map cat_id cats) \<Longrightarrow>
   mset (concat (map (\<lambda>cat. map g (filter (\<lambda>item. it_category_id item = Some (cat_id cat)) xs)) cats))
     = image_mset g (filter_mset (spec_categorised cats) (mset xs))"
proof (induction cats)
  case Nil
  then show ?case by (simp add: spec_categorised_def split: option.splits)
next
  case (Cons cat cats)
  then have IH: "mset (concat (map (\<lambda>cat. map g (filter (\<lambda>item. it_category_id item = Some (cat_id cat)) xs)) cats))
     = image_mset g (filter_mset (spec_categorised cats) (mset xs))" by simp
  from Cons.prems have new: "cat_id cat \<notin> set (map cat_id cats)" by simp
  have split: "filter_mset (spec_categorised (cat # cats)) (mset xs)
     = filter_mset (\<lambda>item. it_category_id item = Some (cat_id cat)) (mset xs)
       + filter_mset (spec_categorised cats) (mset xs)"
    using new by (induction xs) (auto simp: spec_categorised_def split: option.splits)
  show ?case by (simp add: IH split)
qed







lemma mset_insert_by: "mset (insert_by f x ys) = add_mset x (mset ys)"
  by (induction ys) simp_all

lemma mset_order_by: "mset (order_by f xs) = mset xs"
  by (induction xs) (simp_all add: order_by_def mset_insert_by)

lemma length_order_by: "length (order_by f xs) = length xs"
  by (metis mset_order_by size_mset)

lemma downloadExcel_sheets:
  "downloadExcel f sessionId name db = (t, Some (file, sheets)) \<Longrightarrow>
     sheets = map (shop_sheet (shop_items db) (order_by cat_name (categories db))
                     (order_by it_name (items db))
                     (filter (\<lambda>c. sc_session_id c = sessionId) (stock_counts db)))
                (order_by sh_name (shops db))"
  by (auto simp: downloadExcel_def split: option.splits if_splits)






lemma sheetData_empty:
  "\<forall>cat \<in> set cats. map_option snd (byCat (cat_id cat)) = Some [] \<Longrightarrow>
     sheetData byCat cm shop cats = []"
  by (induction cats) auto

lemma mset_presented:
  "distinct (map cat_id cats) \<Longrightarrow>
     mset (concat (map (\<lambda>category. getItemsByCategory its (cat_id category)) cats))
       = filter_mset (spec_categorised cats) (mset its)"
  using mset_by_category [of cats "\<lambda>x. x" its] by (simp add: getItemsByCategory_def)

text \<open>
  Claim C10, as the code has it. For a shop without a Shop Item Assignment row, the
  sheet that \<open>downloadExcel\<close> writes for it has no row at all, whatever items exist.
  The count page does fall back: \<open>fetchItemsForShop\<close> loads every item for such a
  shop. Of these the page presents, category by category, the items whose category is
  one of its categories, each once when the category ids are unique; an item without
  such a category is loaded and not presented.
\<close>

theorem unassigned_shop_export_and_count_page:
  assumes "list_all (\<lambda>si. si_shop_id si \<noteq> sh_id shop) (shop_items db)"
  shows "shop_sheet (shop_items db) cats its fetched shop = (sh_name shop, [])
       \<and> (\<forall>f sessionId name t file sheets n.
            downloadExcel f sessionId name db = (t, Some (file, sheets))
            \<and> n < length (shops db) \<and> order_by sh_name (shops db) ! n = shop
            \<longrightarrow> sheets ! n = (sh_name shop, []))
       \<and> (sh_id shop \<noteq> [] \<longrightarrow>
            fetchItemsForShop \<lparr>ft_shopItemsError = None, ft_itemsError = None\<rparr> (sh_id shop) db
              = (None, order_by it_name (items db))
            \<and> mset (order_by it_name (items db)) = mset (items db))
       \<and> (sh_id shop \<noteq> [] \<and> selectedSession st \<noteq> [] \<and> selectedShop st = sh_id shop
            \<and> distinct (map cat_id page_cats)
          \<longrightarrow> mset (presented_items st page_cats
                  (snd (fetchItemsForShop \<lparr>ft_shopItemsError = None, ft_itemsError = None\<rparr>
                     (sh_id shop) db)))
              = filter_mset (spec_categorised page_cats) (mset (items db)))"
proof -
  from assms have none: "{si_item_id si | si. si \<in> set (shop_items db) \<and> si_shop_id si = sh_id shop} = {}"
    by (auto simp: list_all_iff)
  have sheet: "shop_sheet (shop_items db) cats its fetched shop = (sh_name shop, [])" for cats its fetched
    unfolding shop_sheet_def Let_def shopItemIds none
    by (simp add: sheetData_empty itemsByCategory_lookup)
  from assms have f: "filter (\<lambda>si. si_shop_id si = sh_id shop) (shop_items db) = []"
    by (simp add: list_all_iff filter_empty_conv)
  have fetch: "fetchItemsForShop \<lparr>ft_shopItemsError = None, ft_itemsError = None\<rparr> (sh_id shop) db
              = (None, order_by it_name (items db))" if "sh_id shop \<noteq> []"
    using that by (simp add: fetchItemsForShop_def f)
  have shown: "mset (presented_items st page_cats
                  (snd (fetchItemsForShop \<lparr>ft_shopItemsError = None, ft_itemsError = None\<rparr>
                     (sh_id shop) db)))
              = filter_mset (spec_categorised page_cats) (mset (items db))"
    if a: "sh_id shop \<noteq> [] \<and> selectedSession st \<noteq> [] \<and> selectedShop st = sh_id shop
            \<and> distinct (map cat_id page_cats)"
  proof (cases "items db = []")
    case True
    with a show ?thesis by (simp add: fetch presented_items_def order_by_def)
  next
    case False
    then have "length (order_by it_name (items db)) > 0" by (simp add: length_order_by)
    with a show ?thesis
      by (simp add: fetch presented_items_def mset_presented mset_order_by)
  qed
  have sheets: "\<forall>f sessionId name t file sheets n.
            downloadExcel f sessionId name db = (t, Some (file, sheets))
            \<and> n < length (shops db) \<and> order_by sh_name (shops db) ! n = shop
            \<longrightarrow> sheets ! n = (sh_name shop, [])"
    using sheet by (auto dest!: downloadExcel_sheets simp: length_order_by)
  from sheet sheets fetch shown show ?thesis by (simp add: mset_order_by)
qed

theorem unassigned_shop_export_and_count_page_witness:
  "list_all (\<lambda>si. si_shop_id si \<noteq> sh_id demo_shop2) (shop_items demo_db)
   \<and> order_by sh_name (shops demo_db) ! 0 = demo_shop2
   \<and> snd (downloadExcel no_excel_faults ''s1'' ''Spring'' demo_db)
       = Some (''Spring.xlsx'',
          [(''Harbour'', []),
           (''Main Street'',
            [[Str ''Food''],
             [Str ''Item Name'', Str ''Pack Size'', Str ''Boxes'', Str ''Singles''],
             [Str ''Apples'', Str ''12'', Num 0, Num 0],
             [Str ''Beans'', Str ''6'', Num 2, Num 2],
             []])])
   \<and> shop_sheet (shop_items demo_db) (categories demo_db) (items demo_db) (stock_counts demo_db)
        demo_shop2 = (''Harbour'', [])
   \<and> fetchItemsForShop \<lparr>ft_shopItemsError = None, ft_itemsError = None\<rparr> ''shop2'' demo_db
       = (None, order_by it_name (items demo_db))
   \<and> length (order_by it_name (items demo_db)) = 3
   \<and> distinct (map cat_id (categories demo_db))
   \<and> mset (presented_items demo_harbour_page (categories demo_db)
          (snd (fetchItemsForShop \<lparr>ft_shopItemsError = None, ft_itemsError = None\<rparr> ''shop2'' demo_db)))
       = {#\<lparr>it_id = ''A'', it_name = ''Apples'', it_pack_size = ''12'', it_category_id = Some ''c1''\<rparr>,
           \<lparr>it_id = ''B'', it_name = ''Beans'', it_pack_size = ''6'', it_category_id = Some ''c1''\<rparr>#}"
proof -
  have pre: "list_all (\<lambda>si. si_shop_id si \<noteq> sh_id demo_shop2) (shop_items demo_db)"
    by (simp add: demo_db_def demo_shop2_def)
  have shop: "order_by sh_name (shops demo_db) ! 0 = demo_shop2"
    by (simp add: demo_db_def demo_shop2_def order_by_def)
  have run: "snd (downloadExcel no_excel_faults ''s1'' ''Spring'' demo_db)
       = Some (''Spring.xlsx'',
          [(''Harbour'', []),
           (''Main Street'',
            [[Str ''Food''],
             [Str ''Item Name'', Str ''Pack Size'', Str ''Boxes'', Str ''Singles''],
             [Str ''Apples'', Str ''12'', Num 0, Num 0],
             [Str ''Beans'', Str ''6'', Num 2, Num 2],
             []])])"
    by (simp add: downloadExcel_def no_excel_faults_def shop_sheet_def shopItemsMap_def
      itemsByCategory_def countsMap_def count_map_key_def order_by_def demo_db_def Let_def)
  have id: "sh_id demo_shop2 = ''shop2''" "sh_name demo_shop2 = ''Harbour''"
    by (simp_all add: demo_shop2_def)
  have page: "sh_id demo_shop2 \<noteq> [] \<and> selectedSession demo_harbour_page \<noteq> []
      \<and> selectedShop demo_harbour_page = sh_id demo_shop2"
    by (simp add: demo_shop2_def demo_harbour_page_def demo_page_def)
  have cats: "distinct (map cat_id (categories demo_db))" by (simp add: demo_db_def)
  have rhs: "filter_mset (spec_categorised (categories demo_db)) (mset (items demo_db))
       = {#\<lparr>it_id = ''A'', it_name = ''Apples'', it_pack_size = ''12'', it_category_id = Some ''c1''\<rparr>,
           \<lparr>it_id = ''B'', it_name = ''Beans'', it_pack_size = ''6'', it_category_id = Some ''c1''\<rparr>#}"
    by (simp add: demo_db_def spec_categorised_def)
  note inst = unassigned_shop_export_and_count_page [OF pre,
      of "categories demo_db" "items demo_db" "stock_counts demo_db" demo_harbour_page
         "categories demo_db"]
  from inst have sheet: "shop_sheet (shop_items demo_db) (categories demo_db) (items demo_db)
      (stock_counts demo_db) demo_shop2 = (sh_name demo_shop2, [])"
    by (rule conjunct1)
  from inst page have fetch: "fetchItemsForShop \<lparr>ft_shopItemsError = None, ft_itemsError = None\<rparr>
      (sh_id demo_shop2) demo_db = (None, order_by it_name (items demo_db))"
    by blast
  from inst page cats have shown: "mset (presented_items demo_harbour_page (categories demo_db)
      (snd (fetchItemsForShop \<lparr>ft_shopItemsError = None, ft_itemsError = None\<rparr>
         (sh_id demo_shop2) demo_db)))
    = filter_mset (spec_categorised (categories demo_db)) (mset (items demo_db))"
    by blast
  have len: "length (order_by it_name (items demo_db)) = 3"
    by (simp add: length_order_by demo_db_def)
  from pre shop run sheet fetch len cats shown show ?thesis
    unfolding id rhs by blast
qed

text \<open>
  The claim as it is written fails: the shop \<open>Harbour\<close> has no assignment, the count
  page loads all three items for it and presents two, because the item \<open>Napkins\<close> has
  no category.
\<close>

theorem count_page_presents_counterexample:
  "map si_shop_id (shop_items demo_db) = [''shop1'', ''shop1'', ''shop1'']
   \<and> fetchItemsForShop \<lparr>ft_shopItemsError = None, ft_itemsError = None\<rparr> ''shop2'' demo_db
       = (None,
          [\<lparr>it_id = ''A'', it_name = ''Apples'', it_pack_size = ''12'', it_category_id = Some ''c1''\<rparr>,
           \<lparr>it_id = ''B'', it_name = ''Beans'', it_pack_size = ''6'', it_category_id = Some ''c1''\<rparr>,
           \<lparr>it_id = ''N'', it_name = ''Napkins'', it_pack_size = ''100'', it_category_id = None\<rparr>])
   \<and> presented_items demo_harbour_page (order_by cat_name (categories demo_db))
         (snd (fetchItemsForShop \<lparr>ft_shopItemsError = None, ft_itemsError = None\<rparr> ''shop2'' demo_db))
       = [\<lparr>it_id = ''A'', it_name = ''Apples'', it_pack_size = ''12'', it_category_id = Some ''c1''\<rparr>,
          \<lparr>it_id = ''B'', it_name = ''Beans'', it_pack_size = ''6'', it_category_id = Some ''c1''\<rparr>]"
  by (simp add: fetchItemsForShop_def presented_items_def getItemsByCategory_def order_by_def
      demo_harbour_page_def demo_page_def demo_db_def Let_def)

section \<open>The import loop\<close>

lemma import_step_counts:
  "successCount (import_step env cats i row st)
     = successCount st + (if row_inserted env (i, row) then 1 else 0)"
  "errorCount (import_step env cats i row st)
     = errorCount st + (if row_failed env (i, row) then 1 else 0)"
  "items (im_db (import_step env cats i row st))
     = items (im_db st) @ (if row_inserted env (i, row) then [imported_item env cats (i, row)] else [])"
  by (auto simp: import_step_def row_inserted_def row_failed_def has_name_def Let_def
      split: option.splits)

lemma import_loop_counts:
  "successCount (import_loop env cats i rows st)
     = successCount st + length (filter (row_inserted env) (enumerate i rows))
   \<and> errorCount (import_loop env cats i rows st)
     = errorCount st + length (filter (row_failed env) (enumerate i rows))
   \<and> items (im_db (import_loop env cats i rows st))
     = items (im_db st) @ map (imported_item env cats) (filter (row_inserted env) (enumerate i rows))"
proof (induction rows arbitrary: i st)
  case Nil
  then show ?case by simp
next
  case (Cons row rows)
  show ?case
    unfolding import_loop.simps enumerate_simps
    by (simp add: Cons.IH import_step_counts)
qed

lemma import_loop_total:
  "successCount (import_loop env cats i rows st) + errorCount (import_loop env cats i rows st)
     = successCount st + errorCount st + length (filter has_name rows)"
proof (induction rows arbitrary: i st)
  case Nil
  then show ?case by simp
next
  case (Cons row rows)
  show ?case
    unfolding import_loop.simps
    by (simp add: Cons.IH import_step_counts row_inserted_def row_failed_def)
qed

text \<open>
  Claim C8. The import of \<open>demo_rows\<close> when \<open>Food\<close> is the only category. All
  three rows with a name are inserted and the success count is 3; \<open>FOOD\<close> is matched
  to \<open>Food\<close>. But the category \<open>Drinks\<close>, created for \<open>Tea\<close>, is not reused
  for \<open>Coffee\<close>: the loop looks for it in \<open>categories\<close>, the constant of the
  render that started the import, where \<open>setCategories\<close> has put nothing. A second
  \<open>Drinks\<close> is created and \<open>Coffee\<close> takes that one; or, when the database refuses
  a second category of the name, \<open>Coffee\<close> is inserted without a category.
\<close>

theorem import_creates_category_again:
  "import_rows demo_env (categories demo_db) demo_rows demo_db
     = (Toast_success ''Imported 3 product(s)'',
        \<lparr>successCount = 3, errorCount = 0,
         im_db = demo_db\<lparr>categories :=
                    [\<lparr>cat_id = ''c1'', cat_name = ''Food''\<rparr>,
                     \<lparr>cat_id = ''cat-0'', cat_name = ''Drinks''\<rparr>,
                     \<lparr>cat_id = ''cat-1'', cat_name = ''Drinks''\<rparr>],
                  items := items demo_db @
                    [\<lparr>it_id = ''item-0'', it_name = ''Tea'', it_pack_size = ''20 bags'',
                       it_category_id = Some ''cat-0''\<rparr>,
                     \<lparr>it_id = ''item-1'', it_name = ''Coffee'', it_pack_size = ''250 g'',
                       it_category_id = Some ''cat-1''\<rparr>,
                     \<lparr>it_id = ''item-3'', it_name = ''Milk'', it_pack_size = ''1 l'',
                       it_category_id = Some ''c1''\<rparr>]\<rparr>,
         im_categories =
           [\<lparr>cat_id = ''c1'', cat_name = ''Food''\<rparr>,
            \<lparr>cat_id = ''cat-0'', cat_name = ''Drinks''\<rparr>,
            \<lparr>cat_id = ''cat-1'', cat_name = ''Drinks''\<rparr>]\<rparr>)
   \<and> length (filter has_name demo_rows) = 3
   \<and> import_rows demo_env_unique (categories demo_db) demo_rows demo_db
     = (Toast_success ''Imported 3 product(s)'',
        \<lparr>successCount = 3, errorCount = 0,
         im_db = demo_db\<lparr>categories :=
                    [\<lparr>cat_id = ''c1'', cat_name = ''Food''\<rparr>,
                     \<lparr>cat_id = ''cat-0'', cat_name = ''Drinks''\<rparr>],
                  items := items demo_db @
                    [\<lparr>it_id = ''item-0'', it_name = ''Tea'', it_pack_size = ''20 bags'',
                       it_category_id = Some ''cat-0''\<rparr>,
                     \<lparr>it_id = ''item-1'', it_name = ''Coffee'', it_pack_size = ''250 g'',
                       it_category_id = None\<rparr>,
                     \<lparr>it_id = ''item-3'', it_name = ''Milk'', it_pack_size = ''1 l'',
                       it_category_id = Some ''c1''\<rparr>]\<rparr>,
         im_categories =
           [\<lparr>cat_id = ''c1'', cat_name = ''Food''\<rparr>,
            \<lparr>cat_id = ''cat-0'', cat_name = ''Drinks''\<rparr>]\<rparr>)"
  by (simp add: import_rows_def import_step_def find_or_create_category_def imported_item_def
      demo_env_def demo_env_unique_def demo_rows_def demo_db_def has_name_def trim_def
      strip.simps white_space_def ascii_toLowerCase_def lower_char_def show_nat.simps Let_def)

lemma counts_wf_record_set:
  "counts_wf r \<Longrightarrow> item_id c = k \<Longrightarrow> counts_wf (record_set k c r)"
proof -
  assume wf: "counts_wf r" and c: "item_id c = k"
  have keys: "map fst (map (\<lambda>e. if fst e = k then (k, c) else e) r) = map fst r"
    by (induction r) auto
  show ?thesis
  proof (cases "k \<in> fst ` set r")
    case True
    with wf c keys show ?thesis
      unfolding counts_wf_def record_set_def
      by (auto simp: list_all_iff simp del: map_map)
  next
    case False
    with wf c show ?thesis
      unfolding counts_wf_def record_set_def by (auto simp: list_all_iff)
  qed
qed

lemma counts_wf_writers:
  "counts_wf []"
  "counts_wf prev \<Longrightarrow> counts_wf (updateCount itemId field v prev)"
  "counts_wf prev \<Longrightarrow> counts_wf (incrementCount itemId field prev)"
  "counts_wf prev \<Longrightarrow> counts_wf (decrementCount itemId field prev)"
  by (simp_all add: counts_wf_def [of "[]"] updateCount_def incrementCount_def decrementCount_def
      with_value_def Let_def counts_wf_record_set)

lemma counts_wf_loadExistingCounts: "counts_wf (loadExistingCounts fault sessionId shopId db)"
proof -
  have "counts_wf (fold (\<lambda>count countsMap.
                  record_set (sc_item_id count)
                    \<lparr>item_id = sc_item_id count,
                     boxes = or_zero (Fin (of_int (sc_boxes count))),
                     singles = or_zero (Fin (of_int (sc_singles count)))\<rparr>
                    countsMap) rows m)" if "counts_wf m" for rows m
    using that by (induction rows arbitrary: m) (simp_all add: counts_wf_record_set)
  moreover have "counts_wf []" by (simp add: counts_wf_def)
  ultimately show ?thesis
    unfolding loadExistingCounts_def by (cases fault) simp_all
qed

end
